theory Spec2Isabelle
  imports Complex_Main "HOL-Library.Sublist" "HOL-Library.Log_Nat"
begin

section \<open>Floating-point numbers\<close>

text \<open>
  A finite Python float is the rational number it denotes. An operation on floats gives
  the exact result rounded to the nearest double, ties to the even significand: 53
  significant bits, exponents of the last bit from -1074 up (subnormal numbers included).
  Overflow is not modelled: a mean or a quotient computed below never exceeds its data, and
  a difference too large for a double compares with a threshold as its exact value does.
  For a positive
  \<open>x\<close>, \<open>ilog2 x\<close> is the integer \<open>k\<close> with \<open>2^k \<le> x < 2^(k+1)\<close>, \<open>expo x\<close> the
  exponent of the last bit of the doubles around \<open>x\<close>, and \<open>fl x\<close> the rounded value.
\<close>

definition ilog2 :: "rat \<Rightarrow> int" where
  "ilog2 x = (if 1 \<le> x then bitlen \<lfloor>x\<rfloor> - 1 else - bitlen (\<lceil>1 / x\<rceil> - 1))"

definition expo :: "rat \<Rightarrow> int" where
  "expo x = max (- 1074) (ilog2 x - 52)"

definition round_even :: "rat \<Rightarrow> int" where
  "round_even m =
     (let f = \<lfloor>m\<rfloor>; d = m - of_int f
      in if d < 1 / 2 then f
         else if d > 1 / 2 then f + 1
         else if even f then f else f + 1)"

definition fl_pos :: "rat \<Rightarrow> rat" where
  "fl_pos x = of_int (round_even (x / 2 powi expo x)) * 2 powi expo x"

definition fl :: "rat \<Rightarrow> rat" where
  "fl x = (if x = 0 then 0 else if x < 0 then - fl_pos (- x) else fl_pos x)"

subsection \<open>Rounding is monotone\<close>

lemma two_powi_nonneg: "0 \<le> k \<Longrightarrow> (2::rat) powi k = 2 ^ nat k"
  by (simp add: power_int_def)

lemma ilog2_bounds:
  assumes "0 < x"
  shows "2 powi ilog2 x \<le> x \<and> x < 2 powi (ilog2 x + 1)"
proof (cases "1 \<le> x")
  case True
  define n where "n = \<lfloor>x\<rfloor>"
  have n1: "1 \<le> n" using True by (simp add: n_def le_floor_iff)
  then have npos: "0 < n" by simp
  have b1: "1 \<le> bitlen n" using bitlen_eq_zero_iff [of n] bitlen_nonneg [of n] npos by linarith
  from bitlen_bounds [OF npos]
  have lo: "(2::int) ^ nat (bitlen n - 1) \<le> n" and hi: "n < (2::int) ^ nat (bitlen n)"
    by simp_all
  have k: "ilog2 x = bitlen n - 1" using True by (simp add: ilog2_def n_def)
  have "(2::rat) powi (bitlen n - 1) = of_int (2 ^ nat (bitlen n - 1))"
    using b1 by (simp add: two_powi_nonneg)
  also have "\<dots> \<le> of_int n" using lo by (simp only: of_int_le_iff)
  also have "\<dots> \<le> x" by (simp add: n_def)
  finally have A: "2 powi ilog2 x \<le> x" by (simp add: k)
  have "n + 1 \<le> 2 ^ nat (bitlen n)" using hi by simp
  then have "(of_int (n + 1) :: rat) \<le> of_int (2 ^ nat (bitlen n))"
    by (simp only: of_int_le_iff)
  moreover have "x < of_int (n + 1)" using floor_correct [of x] by (simp add: n_def)
  ultimately have "x < of_int (2 ^ nat (bitlen n))" by linarith
  also have "\<dots> = 2 powi (bitlen n)" using b1 by (simp add: two_powi_nonneg)
  finally have B: "x < 2 powi (ilog2 x + 1)" by (simp add: k)
  from A B show ?thesis by blast
next
  case False
  then have x1: "x < 1" by simp
  define y where "y = 1 / x"
  have y1: "1 < y" using assms x1 by (simp add: y_def)
  define n where "n = \<lceil>y\<rceil> - 1"
  have ny: "of_int n < y" and yn: "y \<le> of_int (n + 1)"
    using ceiling_correct [of y] by (simp_all add: n_def)
  have n1: "1 \<le> n" using y1 ceiling_correct [of y] by (simp add: n_def)
  then have npos: "0 < n" by simp
  have b1: "1 \<le> bitlen n" using bitlen_eq_zero_iff [of n] bitlen_nonneg [of n] npos by linarith
  from bitlen_bounds [OF npos]
  have lo: "(2::int) ^ nat (bitlen n - 1) \<le> n" and hi: "n < (2::int) ^ nat (bitlen n)"
    by simp_all
  have k: "ilog2 x = - bitlen n" using False by (simp add: ilog2_def n_def y_def)
  have "n + 1 \<le> 2 ^ nat (bitlen n)" using hi by simp
  then have "(of_int (n + 1) :: rat) \<le> of_int (2 ^ nat (bitlen n))"
    by (simp only: of_int_le_iff)
  with yn have "y \<le> of_int (2 ^ nat (bitlen n))" by linarith
  also have "\<dots> = 2 powi (bitlen n)" using b1 by (simp add: two_powi_nonneg)
  finally have yle: "y \<le> 2 powi (bitlen n)" .
  have "(2::rat) powi (bitlen n - 1) = of_int (2 ^ nat (bitlen n - 1))"
    using b1 by (simp add: two_powi_nonneg)
  also have "\<dots> \<le> of_int n" using lo by (simp only: of_int_le_iff)
  also have "\<dots> < y" by (rule ny)
  finally have ylt: "2 powi (bitlen n - 1) < y" .
  have p: "(0::rat) < 2 powi (bitlen n)" and p': "(0::rat) < 2 powi (bitlen n - 1)" by simp_all
  have xy: "x = 1 / y" using assms by (simp add: y_def)
  have A: "2 powi (- bitlen n) \<le> x"
  proof -
    have "1 / 2 powi (bitlen n) \<le> 1 / y"
      using yle y1 by (intro divide_left_mono) simp_all
    then show ?thesis by (simp add: xy power_int_minus inverse_eq_divide)
  qed
  have B: "x < 2 powi (- bitlen n + 1)"
  proof -
    have "1 / y < 1 / 2 powi (bitlen n - 1)"
      using ylt p' y1 by (intro divide_strict_left_mono) simp_all
    moreover have "1 / 2 powi (bitlen n - 1) = (2::rat) powi (- bitlen n + 1)"
      using power_int_minus [of "2::rat" "bitlen n - 1"] by (simp add: inverse_eq_divide)
    ultimately show ?thesis by (simp add: xy)
  qed
  from A B show ?thesis by (simp add: k)
qed


lemma round_even_bounds: "\<lfloor>m\<rfloor> \<le> round_even m \<and> round_even m \<le> \<lfloor>m\<rfloor> + 1"
  by (simp add: round_even_def Let_def)

lemma round_even_of_int: "round_even (of_int n) = n"
  by (simp add: round_even_def Let_def)

lemma round_even_mono:
  assumes "m \<le> n"
  shows "round_even m \<le> round_even n"
proof (cases "\<lfloor>m\<rfloor> = \<lfloor>n\<rfloor>")
  case True
  then have "m - of_int \<lfloor>m\<rfloor> \<le> n - of_int \<lfloor>n\<rfloor>" using assms by simp
  then show ?thesis
    using True by (auto simp: round_even_def Let_def)
next
  case False
  have "\<lfloor>m\<rfloor> \<le> \<lfloor>n\<rfloor>" using assms by (rule floor_mono)
  then have "\<lfloor>m\<rfloor> + 1 \<le> \<lfloor>n\<rfloor>" using False by simp
  then show ?thesis
    using round_even_bounds [of m] round_even_bounds [of n] by linarith
qed

lemma two_powi_less_imp:
  assumes "(2::rat) powi a < 2 powi b"
  shows "a < b"
proof (rule ccontr)
  assume "\<not> a < b"
  then have "b \<le> a" by simp
  then have "(2::rat) powi b \<le> 2 powi a" by (intro power_int_increasing) simp_all
  then show False using assms by simp
qed

lemma ilog2_mono:
  assumes "0 < x" and "x \<le> y"
  shows "ilog2 x \<le> ilog2 y"
proof -
  have y: "0 < y" using assms by simp
  have "2 powi ilog2 x \<le> x" using ilog2_bounds [OF assms(1)] by simp
  also have "x \<le> y" by (rule assms(2))
  also have "y < 2 powi (ilog2 y + 1)" using ilog2_bounds [OF y] by simp
  finally have "ilog2 x < ilog2 y + 1" by (rule two_powi_less_imp)
  then show ?thesis by simp
qed

lemma expo_mono: "0 < x \<Longrightarrow> x \<le> y \<Longrightarrow> expo x \<le> expo y"
  using ilog2_mono [of x y] by (simp add: expo_def)

lemma two_powi_split: "(2::rat) powi (a + b) = 2 powi a * 2 powi b"
  by (simp add: power_int_add)

lemma fl_pos_upper:
  assumes "0 < x"
  shows "fl_pos x \<le> 2 powi (expo x + 53)"
proof -
  define e where "e = expo x"
  have pe: "(0::rat) < 2 powi e" by simp
  have ek: "ilog2 x + 1 - e \<le> 53" by (simp add: e_def expo_def)
  have "x < 2 powi (ilog2 x + 1)" using ilog2_bounds [OF assms] by simp
  also have "\<dots> = 2 powi (ilog2 x + 1 - e) * 2 powi e"
    using two_powi_split [of "ilog2 x + 1 - e" e] by simp
  also have "\<dots> \<le> 2 powi 53 * 2 powi e"
    using ek pe by (intro mult_right_mono power_int_increasing) simp_all
  finally have "x / 2 powi e \<le> 2 powi 53"
    using pe by (simp add: pos_divide_le_eq)
  also have "(2::rat) powi 53 = of_int (2 ^ 53)" by (simp add: two_powi_nonneg)
  finally have "round_even (x / 2 powi e) \<le> round_even (of_int (2 ^ 53))"
    by (rule round_even_mono)
  then have "round_even (x / 2 powi e) \<le> 2 ^ 53" by (simp only: round_even_of_int)
  then have "(of_int (round_even (x / 2 powi e)) :: rat) \<le> of_int (2 ^ 53)"
    by (simp only: of_int_le_iff)
  then have "of_int (round_even (x / 2 powi e)) * 2 powi e \<le> (of_int (2 ^ 53) :: rat) * 2 powi e"
    using pe by (intro mult_right_mono) simp_all
  also have "(of_int (2 ^ 53) :: rat) * 2 powi e = 2 powi (e + 53)"
    using two_powi_split [of 53 e] by (simp add: two_powi_nonneg add.commute)
  finally show ?thesis by (simp add: fl_pos_def e_def)
qed

lemma fl_pos_lower:
  assumes "0 < x" and "- 1074 < expo x"
  shows "2 powi (expo x + 52) \<le> fl_pos x"
proof -
  define e where "e = expo x"
  have pe: "(0::rat) < 2 powi e" by simp
  have ek: "ilog2 x = e + 52" using assms(2) by (simp add: e_def expo_def max_def split: if_splits)
  have "(2::rat) powi 52 * 2 powi e = 2 powi (ilog2 x)"
    using two_powi_split [of 52 e] by (simp add: ek add.commute)
  also have "\<dots> \<le> x" using ilog2_bounds [OF assms(1)] by simp
  finally have "2 powi 52 \<le> x / 2 powi e"
    using pe by (simp add: pos_le_divide_eq)
  moreover have "(2::rat) powi 52 = of_int (2 ^ 52)" by (simp add: two_powi_nonneg)
  ultimately have "of_int (2 ^ 52) \<le> x / 2 powi e" by simp
  then have "round_even (of_int (2 ^ 52)) \<le> round_even (x / 2 powi e)"
    by (rule round_even_mono)
  then have "2 ^ 52 \<le> round_even (x / 2 powi e)" by (simp only: round_even_of_int)
  then have "(of_int (2 ^ 52) :: rat) \<le> of_int (round_even (x / 2 powi e))"
    by (simp only: of_int_le_iff)
  then have A: "(of_int (2 ^ 52) :: rat) * 2 powi e
                  \<le> of_int (round_even (x / 2 powi e)) * 2 powi e"
    using pe by (intro mult_right_mono) simp_all
  have B: "(of_int (2 ^ 52) :: rat) * 2 powi e = 2 powi (e + 52)"
    using two_powi_split [of 52 e] by (simp add: two_powi_nonneg add.commute)
  from A have "(2::rat) powi (e + 52) \<le> of_int (round_even (x / 2 powi e)) * 2 powi e"
    by (simp only: B)
  then show ?thesis by (simp only: fl_pos_def e_def)
qed

lemma fl_pos_nonneg:
  assumes "0 < x"
  shows "0 \<le> fl_pos x"
proof -
  have "0 \<le> x / 2 powi expo x" using assms by simp
  then have "round_even 0 \<le> round_even (x / 2 powi expo x)" by (rule round_even_mono)
  then have "0 \<le> round_even (x / 2 powi expo x)" using round_even_of_int [of 0] by simp
  then show ?thesis by (simp add: fl_pos_def)
qed

lemma fl_pos_mono:
  assumes "0 < x" and "x \<le> y"
  shows "fl_pos x \<le> fl_pos y"
proof (cases "expo x = expo y")
  case True
  have "x / 2 powi expo y \<le> y / 2 powi expo y"
    using assms(2) by (simp add: divide_right_mono)
  then have "round_even (x / 2 powi expo y) \<le> round_even (y / 2 powi expo y)"
    by (rule round_even_mono)
  then have "(of_int (round_even (x / 2 powi expo y)) :: rat)
               \<le> of_int (round_even (y / 2 powi expo y))"
    by (simp only: of_int_le_iff)
  then show ?thesis
    by (simp add: fl_pos_def True mult_right_mono)
next
  case False
  have y: "0 < y" using assms by simp
  have lt: "expo x < expo y" using expo_mono [OF assms] False by simp
  have "- 1074 \<le> expo x" by (simp add: expo_def)
  then have big: "- 1074 < expo y" using lt by simp
  have "fl_pos x \<le> 2 powi (expo x + 53)" by (rule fl_pos_upper [OF assms(1)])
  also have "\<dots> \<le> 2 powi (expo y + 52)"
    using lt by (intro power_int_increasing) simp_all
  also have "\<dots> \<le> fl_pos y" by (rule fl_pos_lower [OF y big])
  finally show ?thesis .
qed

lemma fl_mono:
  assumes "x \<le> y"
  shows "fl x \<le> fl y"
proof -
  consider "0 < x" | "x = 0" | "x < 0" "y < 0" | "x < 0" "0 \<le> y" by linarith
  then show ?thesis
  proof cases
    case 1
    then show ?thesis using assms fl_pos_mono [of x y] by (simp add: fl_def)
  next
    case 2
    then show ?thesis using assms fl_pos_nonneg [of y] by (auto simp: fl_def)
  next
    case 3
    then show ?thesis using assms fl_pos_mono [of "- y" "- x"] by (simp add: fl_def)
  next
    case 4
    then show ?thesis using fl_pos_nonneg [of "- x"] fl_pos_nonneg [of y] by (auto simp: fl_def)
  qed
qed

section \<open>Numbers and statistics\<close>

text \<open>
  A Python number is an int or a float. \<open>statistics.mean\<close> sums the data exactly, as
  fractions, and divides by the count; it returns an int when all the data are ints and the
  quotient is whole, and otherwise the quotient rounded to a float. It raises on the empty
  list, and every call in the modelled code is reached only after an explicit emptiness
  check on the list (or on the window the list is mapped from). Comparisons between
  numbers are exact.
\<close>

datatype pynum = PyInt int | PyFloat rat

fun val :: "pynum \<Rightarrow> rat" where
  "val (PyInt i) = of_int i"
| "val (PyFloat x) = x"

fun is_int :: "pynum \<Rightarrow> bool" where
  "is_int (PyInt i) = True"
| "is_int (PyFloat x) = False"

definition exact_mean :: "pynum list \<Rightarrow> rat" where
  "exact_mean xs = sum_list (map val xs) / of_nat (length xs)"

definition mean :: "pynum list \<Rightarrow> pynum" where
  "mean xs =
     (let q = exact_mean xs
      in if list_all is_int xs \<and> of_int \<lfloor>q\<rfloor> = q then PyInt \<lfloor>q\<rfloor> else PyFloat (fl q))"

text \<open>\<open>float(x)\<close>, and the difference \<open>a - b\<close> of two numbers.\<close>

fun to_float :: "pynum \<Rightarrow> rat" where
  "to_float (PyInt i) = fl (of_int i)"
| "to_float (PyFloat x) = x"

fun py_sub :: "pynum \<Rightarrow> pynum \<Rightarrow> pynum" where
  "py_sub (PyInt i) (PyInt j) = PyInt (i - j)"
| "py_sub a b = PyFloat (fl (to_float a - to_float b))"

text \<open>The true division \<open>a / b\<close> of two non-negative ints.\<close>

definition true_div :: "nat \<Rightarrow> nat \<Rightarrow> rat" where
  "true_div a b = fl (of_nat a / of_nat b)"

definition py_min :: "pynum list \<Rightarrow> rat" where
  "py_min xs = Min (set (map val xs))"

definition py_max :: "pynum list \<Rightarrow> rat" where
  "py_max xs = Max (set (map val xs))"

section \<open>Risk engine: thresholds\<close>

text \<open>
  The int literals are themselves; a float literal is the double nearest to its decimal.
\<close>

definition HR_NORMAL_MIN :: rat where "HR_NORMAL_MIN = 60"
definition HR_NORMAL_MAX :: rat where "HR_NORMAL_MAX = 100"
definition HR_EXTREME_LOW :: rat where "HR_EXTREME_LOW = 50"
definition HR_EXTREME_HIGH :: rat where "HR_EXTREME_HIGH = 120"

definition SPO2_NORMAL_MIN :: rat where "SPO2_NORMAL_MIN = 95"
definition SPO2_EXTREME_MIN :: rat where "SPO2_EXTREME_MIN = 92"

definition SYSTOLIC_NORMAL_MIN :: rat where "SYSTOLIC_NORMAL_MIN = 90"
definition SYSTOLIC_NORMAL_MAX :: rat where "SYSTOLIC_NORMAL_MAX = 140"
definition SYSTOLIC_EXTREME_LOW :: rat where "SYSTOLIC_EXTREME_LOW = 85"
definition SYSTOLIC_EXTREME_HIGH :: rat where "SYSTOLIC_EXTREME_HIGH = 160"

definition DIASTOLIC_NORMAL_MIN :: rat where "DIASTOLIC_NORMAL_MIN = 60"
definition DIASTOLIC_NORMAL_MAX :: rat where "DIASTOLIC_NORMAL_MAX = 90"
definition DIASTOLIC_EXTREME_LOW :: rat where "DIASTOLIC_EXTREME_LOW = 50"
definition DIASTOLIC_EXTREME_HIGH :: rat where "DIASTOLIC_EXTREME_HIGH = 100"

definition RR_NORMAL_MIN :: rat where "RR_NORMAL_MIN = 12"
definition RR_NORMAL_MAX :: rat where "RR_NORMAL_MAX = 20"
definition RR_EXTREME_LOW :: rat where "RR_EXTREME_LOW = 10"
definition RR_EXTREME_HIGH :: rat where "RR_EXTREME_HIGH = 24"

definition TEMP_NORMAL_MIN :: rat where "TEMP_NORMAL_MIN = fl (361 / 10)"
definition TEMP_NORMAL_MAX :: rat where "TEMP_NORMAL_MAX = fl (372 / 10)"
definition TEMP_EXTREME_LOW :: rat where "TEMP_EXTREME_LOW = fl (355 / 10)"
definition TEMP_EXTREME_HIGH :: rat where "TEMP_EXTREME_HIGH = 38"

definition SUSTAINED_THRESHOLD_PCT :: rat where "SUSTAINED_THRESHOLD_PCT = fl (4 / 10)"

lemmas threshold_defs =
  HR_NORMAL_MIN_def HR_NORMAL_MAX_def HR_EXTREME_LOW_def HR_EXTREME_HIGH_def
  SPO2_NORMAL_MIN_def SPO2_EXTREME_MIN_def
  SYSTOLIC_NORMAL_MIN_def SYSTOLIC_NORMAL_MAX_def SYSTOLIC_EXTREME_LOW_def
  SYSTOLIC_EXTREME_HIGH_def
  DIASTOLIC_NORMAL_MIN_def DIASTOLIC_NORMAL_MAX_def DIASTOLIC_EXTREME_LOW_def
  DIASTOLIC_EXTREME_HIGH_def
  RR_NORMAL_MIN_def RR_NORMAL_MAX_def RR_EXTREME_LOW_def RR_EXTREME_HIGH_def
  TEMP_NORMAL_MIN_def TEMP_NORMAL_MAX_def TEMP_EXTREME_LOW_def TEMP_EXTREME_HIGH_def

section \<open>Risk engine: the sustained-condition detector\<close>

text \<open>
  \<open>_check_sustained_condition(values, threshold, comparison)\<close>. The comparison is the
  source's string: \<open>"greater"\<close> selects the strict \<open>>\<close> branch, every other string
  the strict \<open><\<close> branch. The count is the source's \<open>sum(1 for v in values if ...)\<close>.
\<close>

definition check_sustained_condition :: "pynum list \<Rightarrow> rat \<Rightarrow> string \<Rightarrow> bool \<times> rat" where
  "check_sustained_condition values threshold comparison =
     (if values = [] then (False, 0)
      else
        let avg_value = val (mean values);
            (exceeding_count, avg_exceeds) =
              (if comparison = ''greater''
               then (sum_list (map (\<lambda>v. 1::nat) (filter (\<lambda>v. val v > threshold) values)),
                     avg_value > threshold)
               else (sum_list (map (\<lambda>v. 1::nat) (filter (\<lambda>v. val v < threshold) values)),
                     avg_value < threshold));
            pct_exceeding = true_div exceeding_count (length values);
            is_sustained = (avg_exceeds \<and> pct_exceeding \<ge> SUSTAINED_THRESHOLD_PCT)
        in (is_sustained, pct_exceeding))"

text \<open>The directional comparison of the specification, used to state the detector's contract.\<close>

definition beyond :: "string \<Rightarrow> rat \<Rightarrow> rat \<Rightarrow> bool" where
  "beyond direction x threshold =
     (if direction = ''greater'' then threshold < x else x < threshold)"

text \<open>The exact fraction of samples beyond the threshold.\<close>

definition fraction_beyond :: "string \<Rightarrow> pynum list \<Rightarrow> rat \<Rightarrow> rat" where
  "fraction_beyond direction values threshold =
     of_nat (length (filter (\<lambda>v. beyond direction (val v) threshold) values))
       / of_nat (length values)"

text \<open>
  The detector as the specification words it, in exact arithmetic: the arithmetic mean
  beyond the threshold, and the fraction at least 0.4.
\<close>

definition sustained_exact :: "pynum list \<Rightarrow> rat \<Rightarrow> string \<Rightarrow> bool \<times> rat" where
  "sustained_exact values threshold direction =
     (if values = [] then (False, 0)
      else (beyond direction (exact_mean values) threshold
              \<and> fraction_beyond direction values threshold \<ge> 4 / 10,
            fraction_beyond direction values threshold))"

text \<open>The two sample series of the specification, and two adjacent floats at 100.\<close>

definition sample_sustained :: "pynum list" where
  "sample_sustained = map PyFloat [105, 110, 108, 112, 109, 111, 107, 110, 95, 98]"

definition sample_not_sustained :: "pynum list" where
  "sample_not_sustained = map PyFloat [105, 95, 98, 92, 97, 110, 93, 94, 96, 108]"

definition sample_rounded :: "pynum list" where
  "sample_rounded = [PyFloat 100, PyFloat (100 + 1 / 2 ^ 46)]"

section \<open>Risk engine: readings and findings\<close>

text \<open>
  A reading carries the six measured channels the engine and the trend detector read. Heart
  rate, respiratory rate, temperature and SpO2 are float columns, the two pressures integer
  columns.
\<close>

record vital =
  heart_rate :: rat
  respiratory_rate :: rat
  body_temperature :: rat
  spo2 :: rat
  systolic_bp :: int
  diastolic_bp :: int

text \<open>
  A finding is the source's dict with keys \<open>severity\<close>, \<open>vital\<close> and
  \<open>description\<close>. The description f-string is kept as its literal leading text
  together with the values it interpolates, in the order they appear; their decimal
  rendering is not modelled.
\<close>

record finding =
  severity :: string
  vital :: string
  description :: "string \<times> rat list"

section \<open>Risk engine: the per-channel analyzers\<close>

definition analyze_heart_rate :: "vital list \<Rightarrow> finding option" where
  "analyze_heart_rate vitals =
     (if vitals = [] then None
      else
        let hr_values = map (\<lambda>v. PyFloat (heart_rate v)) vitals;
            avg_hr = val (mean hr_values);
            min_hr = py_min hr_values;
            max_hr = py_max hr_values;
            (is_sustained_high, pct_high) =
               check_sustained_condition hr_values HR_EXTREME_HIGH ''greater''
        in if is_sustained_high
           then Some \<lparr>severity = ''extreme'', vital = ''heart_rate'',
                  description = (''elevated heart rate detected'',
                    [avg_hr, max_hr, fl (pct_high * 100), HR_EXTREME_HIGH])\<rparr>
           else
             let (is_sustained_low, pct_low) =
                    check_sustained_condition hr_values HR_EXTREME_LOW ''less''
             in if is_sustained_low
                then Some \<lparr>severity = ''extreme'', vital = ''heart_rate'',
                       description = (''low heart rate detected'',
                         [avg_hr, min_hr, fl (pct_low * 100), HR_EXTREME_LOW])\<rparr>
                else
                  let (is_sustained_mild_high, pct_mild_high) =
                         check_sustained_condition hr_values HR_NORMAL_MAX ''greater''
                  in if is_sustained_mild_high \<and> avg_hr < HR_EXTREME_HIGH
                     then Some \<lparr>severity = ''mild'', vital = ''heart_rate'',
                            description = (''mildly elevated heart rate'',
                              [avg_hr, fl (pct_mild_high * 100), HR_NORMAL_MAX])\<rparr>
                     else
                       let (is_sustained_mild_low, pct_mild_low) =
                              check_sustained_condition hr_values HR_NORMAL_MIN ''less''
                       in if is_sustained_mild_low \<and> avg_hr > HR_EXTREME_LOW
                          then Some \<lparr>severity = ''mild'', vital = ''heart_rate'',
                                 description = (''mildly low heart rate'',
                                   [avg_hr, fl (pct_mild_low * 100), HR_NORMAL_MIN])\<rparr>
                          else None)"

definition analyze_spo2 :: "vital list \<Rightarrow> finding option" where
  "analyze_spo2 vitals =
     (if vitals = [] then None
      else
        let spo2_values = map (\<lambda>v. PyFloat (spo2 v)) vitals;
            avg_spo2 = val (mean spo2_values);
            min_spo2 = py_min spo2_values;
            (is_sustained_extreme, pct_extreme) =
               check_sustained_condition spo2_values SPO2_EXTREME_MIN ''less''
        in if is_sustained_extreme
           then Some \<lparr>severity = ''extreme'', vital = ''spo2'',
                  description = (''low oxygen saturation detected'',
                    [avg_spo2, min_spo2, fl (pct_extreme * 100), SPO2_EXTREME_MIN])\<rparr>
           else
             let (is_sustained_mild, pct_mild) =
                    check_sustained_condition spo2_values SPO2_NORMAL_MIN ''less''
             in if is_sustained_mild \<and> avg_spo2 \<ge> SPO2_EXTREME_MIN
                then Some \<lparr>severity = ''mild'', vital = ''spo2'',
                       description = (''mildly low oxygen saturation'',
                         [avg_spo2, min_spo2, fl (pct_mild * 100), SPO2_NORMAL_MIN])\<rparr>
                else None)"

definition analyze_blood_pressure :: "vital list \<Rightarrow> finding option" where
  "analyze_blood_pressure vitals =
     (if vitals = [] then None
      else
        let systolic_values = map (\<lambda>v. PyInt (systolic_bp v)) vitals;
            diastolic_values = map (\<lambda>v. PyInt (diastolic_bp v)) vitals;
            avg_sys = val (mean systolic_values);
            avg_dia = val (mean diastolic_values);
            min_sys = py_min systolic_values;
            max_sys = py_max systolic_values;
            min_dia = py_min diastolic_values;
            max_dia = py_max diastolic_values
        in
          let (is_sustained_sys_high, pct_sys_high) =
                 check_sustained_condition systolic_values SYSTOLIC_EXTREME_HIGH ''greater''
          in if is_sustained_sys_high
             then Some \<lparr>severity = ''extreme'', vital = ''blood_pressure'',
                    description = (''elevated systolic blood pressure'',
                      [avg_sys, max_sys, fl (pct_sys_high * 100), SYSTOLIC_EXTREME_HIGH])\<rparr>
             else
            let (is_sustained_sys_low, pct_sys_low) =
                   check_sustained_condition systolic_values SYSTOLIC_EXTREME_LOW ''less''
            in if is_sustained_sys_low
               then Some \<lparr>severity = ''extreme'', vital = ''blood_pressure'',
                      description = (''low systolic blood pressure'',
                        [avg_sys, min_sys, fl (pct_sys_low * 100), SYSTOLIC_EXTREME_LOW])\<rparr>
               else
              let (is_sustained_dia_high, pct_dia_high) =
                     check_sustained_condition diastolic_values DIASTOLIC_EXTREME_HIGH ''greater''
              in if is_sustained_dia_high
                 then Some \<lparr>severity = ''extreme'', vital = ''blood_pressure'',
                        description = (''elevated diastolic blood pressure'',
                          [avg_dia, max_dia, fl (pct_dia_high * 100), DIASTOLIC_EXTREME_HIGH])\<rparr>
                 else
                let (is_sustained_dia_low, pct_dia_low) =
                       check_sustained_condition diastolic_values DIASTOLIC_EXTREME_LOW ''less''
                in if is_sustained_dia_low
                   then Some \<lparr>severity = ''extreme'', vital = ''blood_pressure'',
                          description = (''low diastolic blood pressure'',
                            [avg_dia, min_dia, fl (pct_dia_low * 100), DIASTOLIC_EXTREME_LOW])\<rparr>
                   else
                  let (is_sustained_sys_mild_high, pct_sys_mild_high) =
                         check_sustained_condition systolic_values SYSTOLIC_NORMAL_MAX ''greater''
                  in if is_sustained_sys_mild_high \<and> avg_sys < SYSTOLIC_EXTREME_HIGH
                     then Some \<lparr>severity = ''mild'', vital = ''blood_pressure'',
                            description = (''mildly elevated systolic blood pressure'',
                              [avg_sys, fl (pct_sys_mild_high * 100), SYSTOLIC_NORMAL_MAX])\<rparr>
                     else
                    let (is_sustained_sys_mild_low, pct_sys_mild_low) =
                           check_sustained_condition systolic_values SYSTOLIC_NORMAL_MIN ''less''
                    in if is_sustained_sys_mild_low \<and> avg_sys > SYSTOLIC_EXTREME_LOW
                       then Some \<lparr>severity = ''mild'', vital = ''blood_pressure'',
                              description = (''mildly low systolic blood pressure'',
                                [avg_sys, fl (pct_sys_mild_low * 100), SYSTOLIC_NORMAL_MIN])\<rparr>
                       else
                      let (is_sustained_dia_mild_high, pct_dia_mild_high) =
                             check_sustained_condition diastolic_values DIASTOLIC_NORMAL_MAX ''greater''
                      in if is_sustained_dia_mild_high \<and> avg_dia < DIASTOLIC_EXTREME_HIGH
                         then Some \<lparr>severity = ''mild'', vital = ''blood_pressure'',
                                description = (''mildly elevated diastolic blood pressure'',
                                  [avg_dia, fl (pct_dia_mild_high * 100), DIASTOLIC_NORMAL_MAX])\<rparr>
                         else
                        let (is_sustained_dia_mild_low, pct_dia_mild_low) =
                               check_sustained_condition diastolic_values DIASTOLIC_NORMAL_MIN ''less''
                        in if is_sustained_dia_mild_low \<and> avg_dia > DIASTOLIC_EXTREME_LOW
                           then Some \<lparr>severity = ''mild'', vital = ''blood_pressure'',
                                  description = (''mildly low diastolic blood pressure'',
                                    [avg_dia, fl (pct_dia_mild_low * 100), DIASTOLIC_NORMAL_MIN])\<rparr>
                           else
                          None)"

definition analyze_respiratory_rate :: "vital list \<Rightarrow> finding option" where
  "analyze_respiratory_rate vitals =
     (if vitals = [] then None
      else
        let rr_values = map (\<lambda>v. PyFloat (respiratory_rate v)) vitals;
            avg_rr = val (mean rr_values);
            min_rr = py_min rr_values;
            max_rr = py_max rr_values;
            (is_sustained_high, pct_high) =
               check_sustained_condition rr_values RR_EXTREME_HIGH ''greater''
        in if is_sustained_high
           then Some \<lparr>severity = ''extreme'', vital = ''respiratory_rate'',
                  description = (''elevated respiratory rate detected'',
                    [avg_rr, max_rr, fl (pct_high * 100), RR_EXTREME_HIGH])\<rparr>
           else
             let (is_sustained_low, pct_low) =
                    check_sustained_condition rr_values RR_EXTREME_LOW ''less''
             in if is_sustained_low
                then Some \<lparr>severity = ''extreme'', vital = ''respiratory_rate'',
                       description = (''low respiratory rate detected'',
                         [avg_rr, min_rr, fl (pct_low * 100), RR_EXTREME_LOW])\<rparr>
                else
                  let (is_sustained_mild_high, pct_mild_high) =
                         check_sustained_condition rr_values RR_NORMAL_MAX ''greater''
                  in if is_sustained_mild_high \<and> avg_rr < RR_EXTREME_HIGH
                     then Some \<lparr>severity = ''mild'', vital = ''respiratory_rate'',
                            description = (''mildly elevated respiratory rate'',
                              [avg_rr, fl (pct_mild_high * 100), RR_NORMAL_MAX])\<rparr>
                     else
                       let (is_sustained_mild_low, pct_mild_low) =
                              check_sustained_condition rr_values RR_NORMAL_MIN ''less''
                       in if is_sustained_mild_low \<and> avg_rr > RR_EXTREME_LOW
                          then Some \<lparr>severity = ''mild'', vital = ''respiratory_rate'',
                                 description = (''mildly low respiratory rate'',
                                   [avg_rr, fl (pct_mild_low * 100), RR_NORMAL_MIN])\<rparr>
                          else None)"

definition analyze_temperature :: "vital list \<Rightarrow> finding option" where
  "analyze_temperature vitals =
     (if vitals = [] then None
      else
        let temp_values = map (\<lambda>v. PyFloat (body_temperature v)) vitals;
            avg_temp = val (mean temp_values);
            min_temp = py_min temp_values;
            max_temp = py_max temp_values;
            (is_sustained_high, pct_high) =
               check_sustained_condition temp_values TEMP_EXTREME_HIGH ''greater''
        in if is_sustained_high
           then Some \<lparr>severity = ''extreme'', vital = ''temperature'',
                  description = (''elevated body temperature detected'',
                    [avg_temp, max_temp, fl (pct_high * 100), TEMP_EXTREME_HIGH])\<rparr>
           else
             let (is_sustained_low, pct_low) =
                    check_sustained_condition temp_values TEMP_EXTREME_LOW ''less''
             in if is_sustained_low
                then Some \<lparr>severity = ''extreme'', vital = ''temperature'',
                       description = (''low body temperature detected'',
                         [avg_temp, min_temp, fl (pct_low * 100), TEMP_EXTREME_LOW])\<rparr>
                else
                  let (is_sustained_mild_high, pct_mild_high) =
                         check_sustained_condition temp_values TEMP_NORMAL_MAX ''greater''
                  in if is_sustained_mild_high \<and> avg_temp < TEMP_EXTREME_HIGH
                     then Some \<lparr>severity = ''mild'', vital = ''temperature'',
                            description = (''mildly elevated body temperature'',
                              [avg_temp, fl (pct_mild_high * 100), TEMP_NORMAL_MAX])\<rparr>
                     else
                       let (is_sustained_mild_low, pct_mild_low) =
                              check_sustained_condition temp_values TEMP_NORMAL_MIN ''less''
                       in if is_sustained_mild_low \<and> avg_temp > TEMP_EXTREME_LOW
                          then Some \<lparr>severity = ''mild'', vital = ''temperature'',
                                 description = (''mildly low body temperature'',
                                   [avg_temp, fl (pct_mild_low * 100), TEMP_NORMAL_MIN])\<rparr>
                          else None)"

section \<open>Risk engine: aggregation\<close>



record risk_assessment =
  risk_level :: string
  signals :: "(string \<times> rat list) list"
  vitals_summary :: "(string \<times> rat) list"



section \<open>The five-step severity procedure of the specification\<close>

text \<open>
  The specification describes each channel by one procedure over a series and four bounds:
  extreme-high, extreme-low, then mild-high and mild-low under strict mean guards. It is
  written here once, split into its extreme tier (steps 1 and 2) and its mild tier (steps 3
  and 4), to compare the hand-written analyzers of the source against it.
\<close>

record channel_config =
  extreme_high :: rat
  extreme_low :: rat
  normal_max :: rat
  normal_min :: rat
  label_extreme_high :: string
  label_extreme_low :: string
  label_mild_high :: string
  label_mild_low :: string

definition extreme_steps :: "string \<Rightarrow> channel_config \<Rightarrow> pynum list \<Rightarrow> finding option" where
  "extreme_steps channel cfg series =
     (if fst (check_sustained_condition series (extreme_high cfg) ''greater'')
      then Some \<lparr>severity = ''extreme'', vital = channel,
             description = (label_extreme_high cfg,
               [val (mean series), py_max series,
                fl (snd (check_sustained_condition series (extreme_high cfg) ''greater'') * 100),
                extreme_high cfg])\<rparr>
      else if fst (check_sustained_condition series (extreme_low cfg) ''less'')
      then Some \<lparr>severity = ''extreme'', vital = channel,
             description = (label_extreme_low cfg,
               [val (mean series), py_min series,
                fl (snd (check_sustained_condition series (extreme_low cfg) ''less'') * 100),
                extreme_low cfg])\<rparr>
      else None)"

definition mild_steps :: "string \<Rightarrow> channel_config \<Rightarrow> pynum list \<Rightarrow> finding option" where
  "mild_steps channel cfg series =
     (if fst (check_sustained_condition series (normal_max cfg) ''greater'')
         \<and> val (mean series) < extreme_high cfg
      then Some \<lparr>severity = ''mild'', vital = channel,
             description = (label_mild_high cfg,
               [val (mean series),
                fl (snd (check_sustained_condition series (normal_max cfg) ''greater'') * 100),
                normal_max cfg])\<rparr>
      else if fst (check_sustained_condition series (normal_min cfg) ''less'')
              \<and> val (mean series) > extreme_low cfg
      then Some \<lparr>severity = ''mild'', vital = channel,
             description = (label_mild_low cfg,
               [val (mean series),
                fl (snd (check_sustained_condition series (normal_min cfg) ''less'') * 100),
                normal_min cfg])\<rparr>
      else None)"

definition five_step :: "string \<Rightarrow> channel_config \<Rightarrow> pynum list \<Rightarrow> finding option" where
  "five_step channel cfg series =
     (case extreme_steps channel cfg series of
        Some f \<Rightarrow> Some f
      | None \<Rightarrow> mild_steps channel cfg series)"

definition heart_rate_config :: channel_config where
  "heart_rate_config =
     \<lparr>extreme_high = HR_EXTREME_HIGH, extreme_low = HR_EXTREME_LOW,
      normal_max = HR_NORMAL_MAX, normal_min = HR_NORMAL_MIN,
      label_extreme_high = ''elevated heart rate detected'',
      label_extreme_low = ''low heart rate detected'',
      label_mild_high = ''mildly elevated heart rate'',
      label_mild_low = ''mildly low heart rate''\<rparr>"

definition systolic_config :: channel_config where
  "systolic_config =
     \<lparr>extreme_high = SYSTOLIC_EXTREME_HIGH, extreme_low = SYSTOLIC_EXTREME_LOW,
      normal_max = SYSTOLIC_NORMAL_MAX, normal_min = SYSTOLIC_NORMAL_MIN,
      label_extreme_high = ''elevated systolic blood pressure'',
      label_extreme_low = ''low systolic blood pressure'',
      label_mild_high = ''mildly elevated systolic blood pressure'',
      label_mild_low = ''mildly low systolic blood pressure''\<rparr>"

definition diastolic_config :: channel_config where
  "diastolic_config =
     \<lparr>extreme_high = DIASTOLIC_EXTREME_HIGH, extreme_low = DIASTOLIC_EXTREME_LOW,
      normal_max = DIASTOLIC_NORMAL_MAX, normal_min = DIASTOLIC_NORMAL_MIN,
      label_extreme_high = ''elevated diastolic blood pressure'',
      label_extreme_low = ''low diastolic blood pressure'',
      label_mild_high = ''mildly elevated diastolic blood pressure'',
      label_mild_low = ''mildly low diastolic blood pressure''\<rparr>"

definition respiratory_rate_config :: channel_config where
  "respiratory_rate_config =
     \<lparr>extreme_high = RR_EXTREME_HIGH, extreme_low = RR_EXTREME_LOW,
      normal_max = RR_NORMAL_MAX, normal_min = RR_NORMAL_MIN,
      label_extreme_high = ''elevated respiratory rate detected'',
      label_extreme_low = ''low respiratory rate detected'',
      label_mild_high = ''mildly elevated respiratory rate'',
      label_mild_low = ''mildly low respiratory rate''\<rparr>"

definition temperature_config :: channel_config where
  "temperature_config =
     \<lparr>extreme_high = TEMP_EXTREME_HIGH, extreme_low = TEMP_EXTREME_LOW,
      normal_max = TEMP_NORMAL_MAX, normal_min = TEMP_NORMAL_MIN,
      label_extreme_high = ''elevated body temperature detected'',
      label_extreme_low = ''low body temperature detected'',
      label_mild_high = ''mildly elevated body temperature'',
      label_mild_low = ''mildly low body temperature''\<rparr>"

definition systolic_series :: "vital list \<Rightarrow> pynum list" where
  "systolic_series vitals = map (\<lambda>v. PyInt (systolic_bp v)) vitals"

definition diastolic_series :: "vital list \<Rightarrow> pynum list" where
  "diastolic_series vitals = map (\<lambda>v. PyInt (diastolic_bp v)) vitals"

text \<open>
  The blood-pressure rule as the specification words it: the whole five-step procedure on
  the systolic series, and the diastolic series only when systolic gives no finding.
\<close>

definition bp_systolic_first :: "vital list \<Rightarrow> finding option" where
  "bp_systolic_first vitals =
     (case five_step ''blood_pressure'' systolic_config (systolic_series vitals) of
        Some f \<Rightarrow> Some f
      | None \<Rightarrow> five_step ''blood_pressure'' diastolic_config (diastolic_series vitals))"

text \<open>
  The blood-pressure rule ordered by tier: the extreme tier of systolic, then the extreme
  tier of diastolic, then the mild tier of systolic, then the mild tier of diastolic.
\<close>

definition bp_extreme_first :: "vital list \<Rightarrow> finding option" where
  "bp_extreme_first vitals =
     (case extreme_steps ''blood_pressure'' systolic_config (systolic_series vitals) of
        Some f \<Rightarrow> Some f
      | None \<Rightarrow>
     (case extreme_steps ''blood_pressure'' diastolic_config (diastolic_series vitals) of
        Some f \<Rightarrow> Some f
      | None \<Rightarrow>
     (case mild_steps ''blood_pressure'' systolic_config (systolic_series vitals) of
        Some f \<Rightarrow> Some f
      | None \<Rightarrow> mild_steps ''blood_pressure'' diastolic_config (diastolic_series vitals))))"

text \<open>A one-reading window: systolic 150 (mild only), diastolic 110 (extreme).\<close>

definition bp_mixed_window :: "vital list" where
  "bp_mixed_window =
     [\<lparr>heart_rate = 75, respiratory_rate = 16, body_temperature = 368 / 10, spo2 = 98,
       systolic_bp = 150, diastolic_bp = 110\<rparr>]"

section \<open>Properties of the detector\<close>

lemma sum_list_ones: "sum_list (map (\<lambda>v. Suc 0) xs) = length xs"
  by (induction xs) simp_all

lemma check_sustained_condition_Nil: "check_sustained_condition [] t c = (False, 0)"
  by (simp add: check_sustained_condition_def)

lemma check_sustained_condition_eq:
  "check_sustained_condition values threshold direction =
     (if values = [] then (False, 0)
      else (beyond direction (val (mean values)) threshold
              \<and> fl (fraction_beyond direction values threshold) \<ge> fl (4 / 10),
            fl (fraction_beyond direction values threshold)))"
  by (simp add: check_sustained_condition_def beyond_def fraction_beyond_def true_div_def
      SUSTAINED_THRESHOLD_PCT_def sum_list_ones Let_def)

lemma mean_of_floats:
  "val (mean (map PyFloat (x # xs))) = fl (sum_list (x # xs) / of_nat (length (x # xs)))"
proof -
  have "map val (map PyFloat xs) = xs" by (induction xs) simp_all
  then show ?thesis by (simp add: mean_def exact_mean_def Let_def)
qed

lemma sample_sustained_value:
  "check_sustained_condition sample_sustained 100 ''greater'' = (True, fl (8 / 10))"
  by code_simp

lemma sample_not_sustained_value:
  "check_sustained_condition sample_not_sustained 100 ''greater'' = (False, fl (3 / 10))"
  by code_simp

text \<open>
  Claim C1, as stated, at two adjacent floats: 100 and the next float above it. Their
  arithmetic mean lies strictly above 100 and half of the samples lie strictly above 100,
  so the rule in exact arithmetic answers True. The mean computed by the program is the
  exact mean rounded to a float, which is 100 itself, and the detector answers False.
\<close>

theorem sustained_exact_counterexample:
  "fl 100 = 100 \<and> fl (100 + 1 / 2 ^ 46) = 100 + 1 / 2 ^ 46
   \<and> exact_mean sample_rounded = 100 + 1 / 2 ^ 47
   \<and> val (mean sample_rounded) = 100
   \<and> sustained_exact sample_rounded 100 ''greater'' = (True, 1 / 2)
   \<and> check_sustained_condition sample_rounded 100 ''greater'' = (False, 1 / 2)"
  by code_simp

text \<open>
  Claim C1, amended. On the empty sequence the detector returns (False, 0); otherwise it
  returns (b, f), where f is the float quotient of the number of samples strictly beyond the
  threshold in the given direction by the number of samples, and b holds exactly when the
  mean as the program computes it is strictly beyond the threshold and f is at least the
  float 0.4. On a sequence of floats the computed mean is the arithmetic mean rounded to
  the nearest float. The two sample series of the specification give (True, 0.8) and
  (False, 0.3), as floats.
\<close>

theorem check_sustained_condition_contract:
  "check_sustained_condition [] threshold direction = (False, 0)
   \<and> check_sustained_condition values threshold direction =
       (if values = [] then (False, 0)
        else (beyond direction (val (mean values)) threshold
                \<and> fl (fraction_beyond direction values threshold) \<ge> fl (4 / 10),
              fl (fraction_beyond direction values threshold)))
   \<and> val (mean (map PyFloat (x # xs))) = fl (sum_list (x # xs) / of_nat (length (x # xs)))
   \<and> beyond ''greater'' y threshold = (y > threshold)
   \<and> beyond ''less'' y threshold = (y < threshold)
   \<and> check_sustained_condition sample_sustained 100 ''greater'' = (True, fl (8 / 10))
   \<and> check_sustained_condition sample_not_sustained 100 ''greater'' = (False, fl (3 / 10))"
proof -
  have b1: "beyond ''greater'' y threshold = (y > threshold)"
    by (simp add: beyond_def)
  have b2: "beyond ''less'' y threshold = (y < threshold)"
    by (simp add: beyond_def)
  show ?thesis
    using check_sustained_condition_Nil [of threshold direction]
      check_sustained_condition_eq [of "values" threshold direction]
      mean_of_floats [of x xs] b1 b2 sample_sustained_value sample_not_sustained_value
    by blast
qed

section \<open>The analyzers against the five-step procedure\<close>

definition heart_rate_series :: "vital list \<Rightarrow> pynum list" where
  "heart_rate_series vitals = map (\<lambda>v. PyFloat (heart_rate v)) vitals"

definition spo2_series :: "vital list \<Rightarrow> pynum list" where
  "spo2_series vitals = map (\<lambda>v. PyFloat (spo2 v)) vitals"

definition respiratory_rate_series :: "vital list \<Rightarrow> pynum list" where
  "respiratory_rate_series vitals = map (\<lambda>v. PyFloat (respiratory_rate v)) vitals"

definition temperature_series :: "vital list \<Rightarrow> pynum list" where
  "temperature_series vitals = map (\<lambda>v. PyFloat (body_temperature v)) vitals"

lemma analyze_heart_rate_five_step:
  "analyze_heart_rate vitals = five_step ''heart_rate'' heart_rate_config (heart_rate_series vitals)"
proof (cases "vitals = []")
  case True
  then show ?thesis
    by (simp add: analyze_heart_rate_def five_step_def extreme_steps_def mild_steps_def
      check_sustained_condition_Nil heart_rate_series_def)
next
  case False
  then show ?thesis
    by (simp add: analyze_heart_rate_def five_step_def extreme_steps_def mild_steps_def
      heart_rate_config_def heart_rate_series_def Let_def case_prod_beta)
qed

lemma analyze_respiratory_rate_five_step:
  "analyze_respiratory_rate vitals =
     five_step ''respiratory_rate'' respiratory_rate_config (respiratory_rate_series vitals)"
proof (cases "vitals = []")
  case True
  then show ?thesis
    by (simp add: analyze_respiratory_rate_def five_step_def extreme_steps_def mild_steps_def
      check_sustained_condition_Nil respiratory_rate_series_def)
next
  case False
  then show ?thesis
    by (simp add: analyze_respiratory_rate_def five_step_def extreme_steps_def mild_steps_def
      respiratory_rate_config_def respiratory_rate_series_def Let_def case_prod_beta)
qed

lemma analyze_temperature_five_step:
  "analyze_temperature vitals =
     five_step ''temperature'' temperature_config (temperature_series vitals)"
proof (cases "vitals = []")
  case True
  then show ?thesis
    by (simp add: analyze_temperature_def five_step_def extreme_steps_def mild_steps_def
      check_sustained_condition_Nil temperature_series_def)
next
  case False
  then show ?thesis
    by (simp add: analyze_temperature_def five_step_def extreme_steps_def mild_steps_def
      temperature_config_def temperature_series_def Let_def case_prod_beta)
qed

lemma analyze_blood_pressure_eq:
  "analyze_blood_pressure vitals = bp_extreme_first vitals"
proof (cases "vitals = []")
  case True
  then show ?thesis
    by (simp add: analyze_blood_pressure_def bp_extreme_first_def extreme_steps_def mild_steps_def
      systolic_series_def diastolic_series_def check_sustained_condition_Nil)
next
  case False
  then show ?thesis
    by (simp add: analyze_blood_pressure_def bp_extreme_first_def extreme_steps_def mild_steps_def
      systolic_config_def diastolic_config_def systolic_series_def diastolic_series_def
      Let_def case_prod_beta)
qed

lemma extreme_steps_severity:
  "extreme_steps ch cfg xs = Some f \<Longrightarrow> severity f = ''extreme''"
  by (auto simp: extreme_steps_def split: if_splits)

lemma mild_steps_guard:
  "mild_steps ch cfg xs = Some f \<Longrightarrow>
     (fst (description f) = label_mild_high cfg \<and> val (mean xs) < extreme_high cfg)
   \<or> (fst (description f) = label_mild_low cfg \<and> val (mean xs) > extreme_low cfg)"
  by (auto simp: mild_steps_def split: if_splits)

lemma five_step_mild_guard:
  "five_step ch cfg xs = Some f \<Longrightarrow> severity f = ''mild'' \<Longrightarrow>
     (fst (description f) = label_mild_high cfg \<and> val (mean xs) < extreme_high cfg)
   \<or> (fst (description f) = label_mild_low cfg \<and> val (mean xs) > extreme_low cfg)"
  by (auto simp: five_step_def split: option.splits
      dest: extreme_steps_severity mild_steps_guard)

lemma bp_extreme_first_mild_guard:
  assumes "bp_extreme_first vitals = Some f" and "severity f = ''mild''"
  shows "(fst (description f) = label_mild_high systolic_config
            \<and> val (mean (systolic_series vitals)) < extreme_high systolic_config)
       \<or> (fst (description f) = label_mild_low systolic_config
            \<and> val (mean (systolic_series vitals)) > extreme_low systolic_config)
       \<or> (fst (description f) = label_mild_high diastolic_config
            \<and> val (mean (diastolic_series vitals)) < extreme_high diastolic_config)
       \<or> (fst (description f) = label_mild_low diastolic_config
            \<and> val (mean (diastolic_series vitals)) > extreme_low diastolic_config)"
  using assms
  by (auto simp: bp_extreme_first_def split: option.splits
      dest: extreme_steps_severity dest!: mild_steps_guard)

lemma analyze_spo2_mild_guard:
  "analyze_spo2 vitals = Some f \<Longrightarrow> severity f = ''mild'' \<Longrightarrow>
     fst (description f) = ''mildly low oxygen saturation''
     \<and> val (mean (spo2_series vitals)) \<ge> SPO2_EXTREME_MIN"
  by (auto simp: analyze_spo2_def spo2_series_def Let_def case_prod_beta split: if_splits)

section \<open>Blood pressure: the order of the eight checks\<close>

text \<open>
  Claim C2, as stated, at the window \<open>bp_mixed_window\<close>: systolic 150 triggers only the
  mild-high step and diastolic 110 triggers the extreme-high step. The rule of the
  specification (systolic's five steps first) would give the mild systolic finding; the
  analyzer gives the extreme diastolic finding.
\<close>

theorem bp_systolic_first_counterexample:
  "bp_systolic_first bp_mixed_window =
     Some \<lparr>severity = ''mild'', vital = ''blood_pressure'',
           description = (''mildly elevated systolic blood pressure'', [150, 100, 140])\<rparr>
   \<and> analyze_blood_pressure bp_mixed_window =
     Some \<lparr>severity = ''extreme'', vital = ''blood_pressure'',
           description = (''elevated diastolic blood pressure'', [110, 110, 100, 100])\<rparr>
   \<and> analyze_blood_pressure bp_mixed_window \<noteq> bp_systolic_first bp_mixed_window"
proof -
  have a: "bp_systolic_first bp_mixed_window =
     Some \<lparr>severity = ''mild'', vital = ''blood_pressure'',
           description = (''mildly elevated systolic blood pressure'', [150, 100, 140])\<rparr>"
    by code_simp
  have b: "analyze_blood_pressure bp_mixed_window =
     Some \<lparr>severity = ''extreme'', vital = ''blood_pressure'',
           description = (''elevated diastolic blood pressure'', [110, 110, 100, 100])\<rparr>"
    by code_simp
  show ?thesis
    by (simp add: a b)
qed

text \<open>
  Claim C2, amended. The blood-pressure channel emits at most one finding, the first that
  triggers in the order: systolic extreme-high, systolic extreme-low, diastolic
  extreme-high, diastolic extreme-low, systolic mild-high, systolic mild-low, diastolic
  mild-high, diastolic mild-low. In particular, when systolic triggers no extreme step and
  diastolic triggers an extreme step, the diastolic extreme finding is returned, whatever
  the mild tier of systolic would give.
\<close>

theorem analyze_blood_pressure_tier_order:
  "analyze_blood_pressure vitals = bp_extreme_first vitals
   \<and> (extreme_steps ''blood_pressure'' systolic_config (systolic_series vitals) = None
      \<and> extreme_steps ''blood_pressure'' diastolic_config (diastolic_series vitals) = Some g
      \<longrightarrow> analyze_blood_pressure vitals = Some g \<and> severity g = ''extreme'')"
  by (auto simp: analyze_blood_pressure_eq bp_extreme_first_def dest: extreme_steps_severity)

theorem analyze_blood_pressure_tier_order_witness:
  "extreme_steps ''blood_pressure'' systolic_config (systolic_series bp_mixed_window) = None
   \<and> mild_steps ''blood_pressure'' systolic_config (systolic_series bp_mixed_window) \<noteq> None
   \<and> extreme_steps ''blood_pressure'' diastolic_config (diastolic_series bp_mixed_window) =
       Some \<lparr>severity = ''extreme'', vital = ''blood_pressure'',
             description = (''elevated diastolic blood pressure'', [110, 110, 100, 100])\<rparr>
   \<and> analyze_blood_pressure bp_mixed_window =
       Some \<lparr>severity = ''extreme'', vital = ''blood_pressure'',
             description = (''elevated diastolic blood pressure'', [110, 110, 100, 100])\<rparr>"
proof -
  have s: "extreme_steps ''blood_pressure'' systolic_config (systolic_series bp_mixed_window)
             = None"
    by code_simp
  have m: "mild_steps ''blood_pressure'' systolic_config (systolic_series bp_mixed_window)
             \<noteq> None"
    by code_simp
  have d: "extreme_steps ''blood_pressure'' diastolic_config (diastolic_series bp_mixed_window)
       = Some \<lparr>severity = ''extreme'', vital = ''blood_pressure'',
             description = (''elevated diastolic blood pressure'', [110, 110, 100, 100])\<rparr>"
    by code_simp
  show ?thesis
    using s m d analyze_blood_pressure_tier_order [of bp_mixed_window
      "\<lparr>severity = ''extreme'', vital = ''blood_pressure'',
        description = (''elevated diastolic blood pressure'', [110, 110, 100, 100])\<rparr>"]
    by blast
qed

section \<open>Mild findings and their mean guards\<close>

text \<open>
  One-reading windows with SpO2 exactly 92 and with heart rate 110, and a window of two
  readings whose SpO2 values are 92 and the next float below 92.
\<close>

definition spo2_boundary_window :: "vital list" where
  "spo2_boundary_window =
     [\<lparr>heart_rate = 75, respiratory_rate = 16, body_temperature = 368 / 10, spo2 = 92,
       systolic_bp = 120, diastolic_bp = 80\<rparr>]"

definition hr_mild_window :: "vital list" where
  "hr_mild_window =
     [\<lparr>heart_rate = 110, respiratory_rate = 16, body_temperature = 368 / 10, spo2 = 98,
       systolic_bp = 120, diastolic_bp = 80\<rparr>]"

definition spo2_rounded_window :: "vital list" where
  "spo2_rounded_window =
     [\<lparr>heart_rate = 75, respiratory_rate = 16, body_temperature = 368 / 10, spo2 = 92,
       systolic_bp = 120, diastolic_bp = 80\<rparr>,
      \<lparr>heart_rate = 75, respiratory_rate = 16, body_temperature = 368 / 10,
       spo2 = 92 - 1 / 2 ^ 46, systolic_bp = 120, diastolic_bp = 80\<rparr>]"

lemma mean_cases: "val (mean xs) = exact_mean xs \<or> val (mean xs) = fl (exact_mean xs)"
  by (auto simp: mean_def Let_def)

lemma computed_less_exact:
  assumes "val (mean xs) < t" and "fl t = t"
  shows "exact_mean xs < t"
proof (rule ccontr)
  assume "\<not> exact_mean xs < t"
  then have le: "t \<le> exact_mean xs" by simp
  then have "fl t \<le> fl (exact_mean xs)" by (rule fl_mono)
  then show False using assms le mean_cases [of xs] by auto
qed

lemma computed_greater_exact:
  assumes "t < val (mean xs)" and "fl t = t"
  shows "t < exact_mean xs"
proof (rule ccontr)
  assume "\<not> t < exact_mean xs"
  then have le: "exact_mean xs \<le> t" by simp
  then have "fl (exact_mean xs) \<le> fl t" by (rule fl_mono)
  then show False using assms le mean_cases [of xs] by auto
qed

lemma fl_bounds_fixed:
  "fl 50 = 50" "fl 120 = 120" "fl 85 = 85" "fl 160 = 160" "fl 100 = 100"
  "fl 10 = 10" "fl 24 = 24" "fl 38 = 38" "fl (71 / 2) = 71 / 2"
  by code_simp+

text \<open>
  Claim C3, as stated, fails on the SpO2 channel: with every reading at 92 the mean is 92,
  not strictly greater than the extreme-low bound 92, and the channel still emits a mild
  finding, because its guard is \<open>avg_spo2 >= SPO2_EXTREME_MIN\<close>.
\<close>

theorem spo2_mild_strict_guard_counterexample:
  "analyze_spo2 spo2_boundary_window =
     Some \<lparr>severity = ''mild'', vital = ''spo2'',
           description = (''mildly low oxygen saturation'', [92, 92, 100, 95])\<rparr>
   \<and> \<not> (val (mean (spo2_series spo2_boundary_window)) > SPO2_EXTREME_MIN)
   \<and> \<not> (exact_mean (spo2_series spo2_boundary_window) > SPO2_EXTREME_MIN)"
  by code_simp

text \<open>
  Claim C3, amended. On the heart-rate, blood-pressure (systolic and diastolic),
  respiratory-rate and temperature channels a mild finding is emitted only under strict
  mean guards: a mild-high finding requires the mean strictly below the extreme-high bound
  and a mild-low finding requires the mean strictly above the extreme-low bound, for the
  mean as the program computes it and for the exact arithmetic mean alike. The SpO2 channel
  has no mild-high step, and its mild finding requires the mean as the program computes it
  (the arithmetic mean rounded to the nearest float) to be greater than or equal to the
  extreme-low bound 92.
\<close>

theorem mild_finding_mean_guards:
  assumes "severity f = ''mild''"
  shows "(analyze_heart_rate vitals = Some f \<longrightarrow>
            (fst (description f) = ''mildly elevated heart rate''
               \<and> val (mean (heart_rate_series vitals)) < HR_EXTREME_HIGH
               \<and> exact_mean (heart_rate_series vitals) < HR_EXTREME_HIGH)
          \<or> (fst (description f) = ''mildly low heart rate''
               \<and> val (mean (heart_rate_series vitals)) > HR_EXTREME_LOW
               \<and> exact_mean (heart_rate_series vitals) > HR_EXTREME_LOW))
       \<and> (analyze_blood_pressure vitals = Some f \<longrightarrow>
            (fst (description f) = ''mildly elevated systolic blood pressure''
               \<and> val (mean (systolic_series vitals)) < SYSTOLIC_EXTREME_HIGH
               \<and> exact_mean (systolic_series vitals) < SYSTOLIC_EXTREME_HIGH)
          \<or> (fst (description f) = ''mildly low systolic blood pressure''
               \<and> val (mean (systolic_series vitals)) > SYSTOLIC_EXTREME_LOW
               \<and> exact_mean (systolic_series vitals) > SYSTOLIC_EXTREME_LOW)
          \<or> (fst (description f) = ''mildly elevated diastolic blood pressure''
               \<and> val (mean (diastolic_series vitals)) < DIASTOLIC_EXTREME_HIGH
               \<and> exact_mean (diastolic_series vitals) < DIASTOLIC_EXTREME_HIGH)
          \<or> (fst (description f) = ''mildly low diastolic blood pressure''
               \<and> val (mean (diastolic_series vitals)) > DIASTOLIC_EXTREME_LOW
               \<and> exact_mean (diastolic_series vitals) > DIASTOLIC_EXTREME_LOW))
       \<and> (analyze_respiratory_rate vitals = Some f \<longrightarrow>
            (fst (description f) = ''mildly elevated respiratory rate''
               \<and> val (mean (respiratory_rate_series vitals)) < RR_EXTREME_HIGH
               \<and> exact_mean (respiratory_rate_series vitals) < RR_EXTREME_HIGH)
          \<or> (fst (description f) = ''mildly low respiratory rate''
               \<and> val (mean (respiratory_rate_series vitals)) > RR_EXTREME_LOW
               \<and> exact_mean (respiratory_rate_series vitals) > RR_EXTREME_LOW))
       \<and> (analyze_temperature vitals = Some f \<longrightarrow>
            (fst (description f) = ''mildly elevated body temperature''
               \<and> val (mean (temperature_series vitals)) < TEMP_EXTREME_HIGH
               \<and> exact_mean (temperature_series vitals) < TEMP_EXTREME_HIGH)
          \<or> (fst (description f) = ''mildly low body temperature''
               \<and> val (mean (temperature_series vitals)) > TEMP_EXTREME_LOW
               \<and> exact_mean (temperature_series vitals) > TEMP_EXTREME_LOW))
       \<and> (analyze_spo2 vitals = Some f \<longrightarrow>
            fst (description f) = ''mildly low oxygen saturation''
            \<and> val (mean (spo2_series vitals)) \<ge> SPO2_EXTREME_MIN)"
proof -
  note fixed = fl_bounds_fixed threshold_defs
  have hr: "analyze_heart_rate vitals = Some f \<longrightarrow>
            (fst (description f) = ''mildly elevated heart rate''
               \<and> val (mean (heart_rate_series vitals)) < HR_EXTREME_HIGH
               \<and> exact_mean (heart_rate_series vitals) < HR_EXTREME_HIGH)
          \<or> (fst (description f) = ''mildly low heart rate''
               \<and> val (mean (heart_rate_series vitals)) > HR_EXTREME_LOW
               \<and> exact_mean (heart_rate_series vitals) > HR_EXTREME_LOW)"
    using five_step_mild_guard [of "''heart_rate''" heart_rate_config
        "heart_rate_series vitals" f] assms
      computed_less_exact [of "heart_rate_series vitals" HR_EXTREME_HIGH]
      computed_greater_exact [of HR_EXTREME_LOW "heart_rate_series vitals"]
    by (auto simp: analyze_heart_rate_five_step heart_rate_config_def fixed)
  have bp: "analyze_blood_pressure vitals = Some f \<longrightarrow>
            (fst (description f) = ''mildly elevated systolic blood pressure''
               \<and> val (mean (systolic_series vitals)) < SYSTOLIC_EXTREME_HIGH
               \<and> exact_mean (systolic_series vitals) < SYSTOLIC_EXTREME_HIGH)
          \<or> (fst (description f) = ''mildly low systolic blood pressure''
               \<and> val (mean (systolic_series vitals)) > SYSTOLIC_EXTREME_LOW
               \<and> exact_mean (systolic_series vitals) > SYSTOLIC_EXTREME_LOW)
          \<or> (fst (description f) = ''mildly elevated diastolic blood pressure''
               \<and> val (mean (diastolic_series vitals)) < DIASTOLIC_EXTREME_HIGH
               \<and> exact_mean (diastolic_series vitals) < DIASTOLIC_EXTREME_HIGH)
          \<or> (fst (description f) = ''mildly low diastolic blood pressure''
               \<and> val (mean (diastolic_series vitals)) > DIASTOLIC_EXTREME_LOW
               \<and> exact_mean (diastolic_series vitals) > DIASTOLIC_EXTREME_LOW)"
    using bp_extreme_first_mild_guard [of vitals f] assms
      computed_less_exact [of "systolic_series vitals" SYSTOLIC_EXTREME_HIGH]
      computed_greater_exact [of SYSTOLIC_EXTREME_LOW "systolic_series vitals"]
      computed_less_exact [of "diastolic_series vitals" DIASTOLIC_EXTREME_HIGH]
      computed_greater_exact [of DIASTOLIC_EXTREME_LOW "diastolic_series vitals"]
    by (auto simp: analyze_blood_pressure_eq systolic_config_def diastolic_config_def fixed)
  have rr: "analyze_respiratory_rate vitals = Some f \<longrightarrow>
            (fst (description f) = ''mildly elevated respiratory rate''
               \<and> val (mean (respiratory_rate_series vitals)) < RR_EXTREME_HIGH
               \<and> exact_mean (respiratory_rate_series vitals) < RR_EXTREME_HIGH)
          \<or> (fst (description f) = ''mildly low respiratory rate''
               \<and> val (mean (respiratory_rate_series vitals)) > RR_EXTREME_LOW
               \<and> exact_mean (respiratory_rate_series vitals) > RR_EXTREME_LOW)"
    using five_step_mild_guard [of "''respiratory_rate''" respiratory_rate_config
        "respiratory_rate_series vitals" f] assms
      computed_less_exact [of "respiratory_rate_series vitals" RR_EXTREME_HIGH]
      computed_greater_exact [of RR_EXTREME_LOW "respiratory_rate_series vitals"]
    by (auto simp: analyze_respiratory_rate_five_step respiratory_rate_config_def fixed)
  have temp: "analyze_temperature vitals = Some f \<longrightarrow>
            (fst (description f) = ''mildly elevated body temperature''
               \<and> val (mean (temperature_series vitals)) < TEMP_EXTREME_HIGH
               \<and> exact_mean (temperature_series vitals) < TEMP_EXTREME_HIGH)
          \<or> (fst (description f) = ''mildly low body temperature''
               \<and> val (mean (temperature_series vitals)) > TEMP_EXTREME_LOW
               \<and> exact_mean (temperature_series vitals) > TEMP_EXTREME_LOW)"
    using five_step_mild_guard [of "''temperature''" temperature_config
        "temperature_series vitals" f] assms
      computed_less_exact [of "temperature_series vitals" TEMP_EXTREME_HIGH]
      computed_greater_exact [of TEMP_EXTREME_LOW "temperature_series vitals"]
    by (auto simp: analyze_temperature_five_step temperature_config_def fixed)
  have ox: "analyze_spo2 vitals = Some f \<longrightarrow>
            fst (description f) = ''mildly low oxygen saturation''
            \<and> val (mean (spo2_series vitals)) \<ge> SPO2_EXTREME_MIN"
    using analyze_spo2_mild_guard [of vitals f] assms by blast
  from hr bp rr temp ox show ?thesis by blast
qed

theorem mild_finding_mean_guards_witness:
  "analyze_heart_rate hr_mild_window =
     Some \<lparr>severity = ''mild'', vital = ''heart_rate'',
           description = (''mildly elevated heart rate'', [110, 100, 100])\<rparr>
   \<and> val (mean (heart_rate_series hr_mild_window)) < HR_EXTREME_HIGH
   \<and> exact_mean (heart_rate_series hr_mild_window) < HR_EXTREME_HIGH
   \<and> analyze_spo2 spo2_boundary_window =
     Some \<lparr>severity = ''mild'', vital = ''spo2'',
           description = (''mildly low oxygen saturation'', [92, 92, 100, 95])\<rparr>
   \<and> val (mean (spo2_series spo2_boundary_window)) \<ge> SPO2_EXTREME_MIN
   \<and> analyze_spo2 spo2_rounded_window =
     Some \<lparr>severity = ''mild'', vital = ''spo2'',
           description = (''mildly low oxygen saturation'', [92, 92 - 1 / 2 ^ 46, 100, 95])\<rparr>
   \<and> val (mean (spo2_series spo2_rounded_window)) \<ge> SPO2_EXTREME_MIN
   \<and> exact_mean (spo2_series spo2_rounded_window) < SPO2_EXTREME_MIN"
proof -
  let ?f = "\<lparr>severity = ''mild'', vital = ''heart_rate'',
             description = (''mildly elevated heart rate'', [110, 100, 100])\<rparr>"
  let ?g = "\<lparr>severity = ''mild'', vital = ''spo2'',
             description = (''mildly low oxygen saturation'', [92, 92, 100, 95])\<rparr>"
  let ?h = "\<lparr>severity = ''mild'', vital = ''spo2'',
             description = (''mildly low oxygen saturation'', [92, 92 - 1 / 2 ^ 46, 100, 95])\<rparr>"
  have a: "analyze_heart_rate hr_mild_window = Some ?f"
    by code_simp
  have b: "analyze_spo2 spo2_boundary_window = Some ?g"
    by code_simp
  have c: "analyze_spo2 spo2_rounded_window = Some ?h"
    by code_simp
  have x: "exact_mean (spo2_series spo2_rounded_window) < SPO2_EXTREME_MIN"
    by code_simp
  have sf: "severity ?f = ''mild''" and sg: "severity ?g = ''mild''"
    and sh: "severity ?h = ''mild''"
    by simp_all
  show ?thesis
    using a b c x mild_finding_mean_guards [OF sf, of hr_mild_window]
      mild_finding_mean_guards [OF sg, of spo2_boundary_window]
      mild_finding_mean_guards [OF sh, of spo2_rounded_window]
    by simp
qed

section \<open>Readings inside the normal ranges\<close>




















section \<open>Summary service: errors\<close>

datatype summary_error =
    InvalidInputError string
  | APIError string
  | ValidationError string
  | ValueError string

section \<open>Summary service: statistics and trend for the prompt\<close>

text \<open>
  \<open>format_vitals_for_prompt(vitals, risk_assessment)\<close>. The two segments are the
  slices \<open>vitals[:split_point]\<close> and \<open>vitals[-split_point:]\<close>; since
  \<open>split_point\<close> is at least 1, the second slice starts at index
  \<open>max(0, len(vitals) - split_point)\<close>, which is the truncating subtraction below.
\<close>

definition split_point :: "vital list \<Rightarrow> nat" where
  "split_point vitals = max 1 (length vitals div 4)"

definition first_segment :: "vital list \<Rightarrow> vital list" where
  "first_segment vitals = take (split_point vitals) vitals"

definition last_segment :: "vital list \<Rightarrow> vital list" where
  "last_segment vitals = drop (length vitals - split_point vitals) vitals"

text \<open>\<open>vitals_summary.get(key, 0)\<close> on the statistics dict.\<close>

definition get_or_zero :: "(string \<times> rat) list \<Rightarrow> string \<Rightarrow> rat" where
  "get_or_zero d key = (case map_of d key of Some x \<Rightarrow> x | None \<Rightarrow> 0)"

text \<open>
  The returned dict, without the four entries copied from fields the modelled reading does
  not carry (start and end time, age, gender).
\<close>

record prompt_data =
  num_readings :: nat
  hr_avg :: rat
  hr_min :: rat
  hr_max :: rat
  spo2_avg :: rat
  spo2_min :: rat
  spo2_max :: rat
  systolic_avg :: rat
  systolic_min :: rat
  systolic_max :: rat
  diastolic_avg :: rat
  diastolic_min :: rat
  diastolic_max :: rat
  rr_avg :: rat
  rr_min :: rat
  rr_max :: rat
  temp_avg :: rat
  temp_min :: rat
  temp_max :: rat
  trend :: string
  prompt_risk_level :: string
  prompt_signals :: "(string \<times> rat list) list"

definition format_vitals_for_prompt ::
    "vital list \<Rightarrow> risk_assessment \<Rightarrow> summary_error + prompt_data" where
  "format_vitals_for_prompt vitals ra =
     (if vitals = [] then Inl (InvalidInputError ''vitals list cannot be empty'')
      else
        let summary = vitals_summary ra;
            hr_first = mean (heart_rate_series (first_segment vitals));
            hr_last = mean (heart_rate_series (last_segment vitals));
            spo2_first = mean (spo2_series (first_segment vitals));
            spo2_last = mean (spo2_series (last_segment vitals));
            sys_first = mean (systolic_series (first_segment vitals));
            sys_last = mean (systolic_series (last_segment vitals));
            hr_change = val (py_sub hr_last hr_first);
            spo2_change = val (py_sub spo2_last spo2_first);
            sys_change = val (py_sub sys_last sys_first);
            trend_label =
              (if hr_change > 10 \<or> spo2_change < - 2 \<or> sys_change > 10
               then ''deteriorating''
               else if hr_change < - 10 \<or> spo2_change > 2 \<or> sys_change < - 10
               then ''improving''
               else ''stable'')
        in Inr \<lparr>num_readings = length vitals,
                hr_avg = get_or_zero summary ''heart_rate_avg'',
                hr_min = get_or_zero summary ''heart_rate_min'',
                hr_max = get_or_zero summary ''heart_rate_max'',
                spo2_avg = get_or_zero summary ''spo2_avg'',
                spo2_min = get_or_zero summary ''spo2_min'',
                spo2_max = get_or_zero summary ''spo2_max'',
                systolic_avg = get_or_zero summary ''systolic_bp_avg'',
                systolic_min = get_or_zero summary ''systolic_bp_min'',
                systolic_max = get_or_zero summary ''systolic_bp_max'',
                diastolic_avg = get_or_zero summary ''diastolic_bp_avg'',
                diastolic_min = get_or_zero summary ''diastolic_bp_min'',
                diastolic_max = get_or_zero summary ''diastolic_bp_max'',
                rr_avg = get_or_zero summary ''respiratory_rate_avg'',
                rr_min = get_or_zero summary ''respiratory_rate_min'',
                rr_max = get_or_zero summary ''respiratory_rate_max'',
                temp_avg = get_or_zero summary ''temperature_avg'',
                temp_min = get_or_zero summary ''temperature_min'',
                temp_max = get_or_zero summary ''temperature_max'',
                trend = trend_label,
                prompt_risk_level = risk_level ra,
                prompt_signals = signals ra\<rparr>)"

text \<open>
  The trend rule in the words of the specification: a leading and a trailing segment of
  \<open>max(1, count // 4)\<close> readings each, the changes of the three segment means from
  leading to trailing, and the two threshold tests in order. \<open>trend_exact\<close> takes the
  means and the changes in exact arithmetic; \<open>trend_rule\<close> takes them as the program
  computes them, each mean and each difference rounded to a float (means and differences
  of ints that come out whole stay ints).
\<close>

definition quartile_size :: "nat \<Rightarrow> nat" where
  "quartile_size n = max 1 (n div 4)"

definition leading :: "vital list \<Rightarrow> vital list" where
  "leading vitals = take (quartile_size (length vitals)) vitals"

definition trailing :: "vital list \<Rightarrow> vital list" where
  "trailing vitals = rev (take (quartile_size (length vitals)) (rev vitals))"

definition exact_change :: "(vital list \<Rightarrow> pynum list) \<Rightarrow> vital list \<Rightarrow> rat" where
  "exact_change series vitals =
     exact_mean (series (trailing vitals)) - exact_mean (series (leading vitals))"

definition trend_exact :: "vital list \<Rightarrow> string" where
  "trend_exact vitals =
     (if exact_change heart_rate_series vitals > 10 \<or> exact_change spo2_series vitals < - 2
         \<or> exact_change systolic_series vitals > 10
      then ''deteriorating''
      else if exact_change heart_rate_series vitals < - 10
              \<or> exact_change spo2_series vitals > 2
              \<or> exact_change systolic_series vitals < - 10
      then ''improving''
      else ''stable'')"

definition change :: "(vital list \<Rightarrow> pynum list) \<Rightarrow> vital list \<Rightarrow> rat" where
  "change series vitals =
     val (py_sub (mean (series (trailing vitals))) (mean (series (leading vitals))))"

definition trend_rule :: "vital list \<Rightarrow> string" where
  "trend_rule vitals =
     (if change heart_rate_series vitals > 10 \<or> change spo2_series vitals < - 2
         \<or> change systolic_series vitals > 10
      then ''deteriorating''
      else if change heart_rate_series vitals < - 10 \<or> change spo2_series vitals > 2
              \<or> change systolic_series vitals < - 10
      then ''improving''
      else ''stable'')"

text \<open>
  The leading segment holds the positions below \<open>split_point\<close>, the trailing segment the
  positions from \<open>length - split_point\<close> on: they share a position exactly when the
  second bound is below the first.
\<close>

definition segments_overlap :: "vital list \<Rightarrow> bool" where
  "segments_overlap vitals \<longleftrightarrow> length vitals - split_point vitals < split_point vitals"

text \<open>
  A window of two readings; a window of four readings with rising heart rate; and a window
  of eight readings whose last two heart rates are 70 and the next float above 70.
\<close>

definition reading :: "rat \<Rightarrow> vital" where
  "reading hr =
     \<lparr>heart_rate = hr, respiratory_rate = 16, body_temperature = 368 / 10, spo2 = 98,
      systolic_bp = 120, diastolic_bp = 80\<rparr>"

definition two_reading_window :: "vital list" where
  "two_reading_window = [reading 70, reading 90]"

definition rising_window :: "vital list" where
  "rising_window = [reading 70, reading 75, reading 80, reading 90]"

definition rounded_trend_window :: "vital list" where
  "rounded_trend_window =
     [reading 60, reading 60, reading 65, reading 65, reading 65, reading 65,
      reading 70, reading (70 + 1 / 2 ^ 46)]"

definition no_assessment :: risk_assessment where
  "no_assessment = \<lparr>risk_level = ''low'', signals = [], vitals_summary = []\<rparr>"

section \<open>Properties of the trend label\<close>

lemma last_segment_trailing: "last_segment vitals = trailing vitals"
  by (simp add: last_segment_def trailing_def split_point_def quartile_size_def take_rev)

lemma first_segment_leading: "first_segment vitals = leading vitals"
  by (simp add: first_segment_def leading_def split_point_def quartile_size_def)

lemma quartile_arith:
  fixes n :: nat
  assumes "0 < n"
  shows "(n - max 1 (n div 4) < max 1 (n div 4)) = (n = 1)"
    and "min n (max 1 (n div 4)) = max 1 (n div 4)"
  using assms by (auto simp: max_def min_def)

lemma segments_overlap_iff:
  assumes "vitals \<noteq> []"
  shows "segments_overlap vitals \<longleftrightarrow> length vitals = 1"
proof -
  have "0 < length vitals" using assms by simp
  then show ?thesis
    unfolding segments_overlap_def split_point_def by (rule quartile_arith(1))
qed

text \<open>
  Claim C6, as stated, fails in two places. It says the two segments overlap whenever the
  window has fewer than four readings: on a window of two readings the segments are the
  first reading and the second reading, and share no position. And it states the label in
  terms of the differences of the segment means: on the window of eight readings the
  trailing mean heart rate exceeds the leading one by more than 10, so the rule in exact
  arithmetic says deteriorating, whereas the program, whose trailing mean is rounded to the
  float 70, finds a change of exactly 10 and says stable.
\<close>

theorem trend_claim_counterexample:
  "length two_reading_window < 4
   \<and> first_segment two_reading_window = [two_reading_window ! 0]
   \<and> last_segment two_reading_window = [two_reading_window ! 1]
   \<and> \<not> segments_overlap two_reading_window
   \<and> fl (70 + 1 / 2 ^ 46) = 70 + 1 / 2 ^ 46
   \<and> exact_change heart_rate_series rounded_trend_window = 10 + 1 / 2 ^ 47
   \<and> trend_exact rounded_trend_window = ''deteriorating''
   \<and> trend (projr (format_vitals_for_prompt rounded_trend_window no_assessment)) = ''stable''"
proof -
  have a: "length two_reading_window < 4
   \<and> first_segment two_reading_window = [two_reading_window ! 0]
   \<and> last_segment two_reading_window = [two_reading_window ! 1]
   \<and> \<not> segments_overlap two_reading_window"
    by (simp add: two_reading_window_def first_segment_def last_segment_def split_point_def
        segments_overlap_def)
  have b: "fl (70 + 1 / 2 ^ 46) = 70 + 1 / 2 ^ 46"
    by code_simp
  have c: "exact_change heart_rate_series rounded_trend_window = 10 + 1 / 2 ^ 47"
    by code_simp
  have d: "trend_exact rounded_trend_window = ''deteriorating''"
    by code_simp
  have e: "trend (projr (format_vitals_for_prompt rounded_trend_window no_assessment))
             = ''stable''"
    by code_simp
  show ?thesis
    using a b c d e by blast
qed

text \<open>
  Claim C6, amended. For every non-empty window the trend label is computed from the
  leading and trailing segments of \<open>max(1, count // 4)\<close> readings each (these segments
  overlap exactly when count = 1). With each change taken as the program computes it, the
  trailing segment mean minus the leading segment mean in floating point, the label is
  deteriorating iff the heart-rate change exceeds 10, or the SpO2 change is below -2, or the
  systolic change exceeds 10; otherwise improving iff the heart-rate change is below -10, or
  the SpO2 change exceeds 2, or the systolic change is below -10; otherwise stable.
\<close>

theorem trend_label_rule:
  assumes "vitals \<noteq> []"
  shows "\<not> isl (format_vitals_for_prompt vitals ra)
         \<and> trend (projr (format_vitals_for_prompt vitals ra)) = trend_rule vitals
         \<and> length (leading vitals) = max 1 (length vitals div 4)
         \<and> length (trailing vitals) = max 1 (length vitals div 4)
         \<and> (segments_overlap vitals \<longleftrightarrow> length vitals = 1)
         \<and> change heart_rate_series vitals =
             fl (fl (exact_mean (heart_rate_series (trailing vitals)))
                 - fl (exact_mean (heart_rate_series (leading vitals))))
         \<and> change spo2_series vitals =
             fl (fl (exact_mean (spo2_series (trailing vitals)))
                 - fl (exact_mean (spo2_series (leading vitals))))"
proof -
  have n: "0 < length vitals" using assms by simp
  have a: "\<not> isl (format_vitals_for_prompt vitals ra)"
    using assms by (simp add: format_vitals_for_prompt_def Let_def)
  have b: "trend (projr (format_vitals_for_prompt vitals ra)) = trend_rule vitals"
    using assms
    by (simp add: format_vitals_for_prompt_def Let_def trend_rule_def change_def
        last_segment_trailing first_segment_leading)
  have c: "length (leading vitals) = max 1 (length vitals div 4)"
    using quartile_arith(2) [OF n] by (simp add: leading_def quartile_size_def)
  have d: "length (trailing vitals) = max 1 (length vitals div 4)"
    using quartile_arith(2) [OF n] by (simp add: trailing_def quartile_size_def)
  have l: "leading vitals \<noteq> []" using c by auto
  have t: "trailing vitals \<noteq> []" using d by auto
  have float_change: "val (py_sub (mean (map (\<lambda>v. PyFloat (f v)) (trailing vitals)))
                             (mean (map (\<lambda>v. PyFloat (f v)) (leading vitals))))
      = fl (fl (exact_mean (map (\<lambda>v. PyFloat (f v)) (trailing vitals)))
            - fl (exact_mean (map (\<lambda>v. PyFloat (f v)) (leading vitals))))" for f
  proof -
    obtain x xs where x: "trailing vitals = x # xs" using t by (cases "trailing vitals") auto
    obtain y ys where y: "leading vitals = y # ys" using l by (cases "leading vitals") auto
    show ?thesis by (simp add: x y mean_def Let_def)
  qed
  have e: "change heart_rate_series vitals =
             fl (fl (exact_mean (heart_rate_series (trailing vitals)))
                 - fl (exact_mean (heart_rate_series (leading vitals))))"
    using float_change [of heart_rate] by (simp add: change_def heart_rate_series_def)
  have f: "change spo2_series vitals =
             fl (fl (exact_mean (spo2_series (trailing vitals)))
                 - fl (exact_mean (spo2_series (leading vitals))))"
    using float_change [of spo2] by (simp add: change_def spo2_series_def)
  show ?thesis
    using a b c d e f segments_overlap_iff [OF assms] by blast
qed

theorem trend_label_rule_witness:
  "rising_window \<noteq> []
   \<and> \<not> isl (format_vitals_for_prompt rising_window no_assessment)
   \<and> trend (projr (format_vitals_for_prompt rising_window no_assessment)) = ''deteriorating''
   \<and> trend_rule rising_window = ''deteriorating''
   \<and> change heart_rate_series rising_window = 20
   \<and> \<not> segments_overlap rising_window
   \<and> trend (projr (format_vitals_for_prompt (rev rising_window) no_assessment)) = ''improving''
   \<and> trend (projr (format_vitals_for_prompt rounded_trend_window no_assessment)) = ''stable''"
proof -
  have ne: "rising_window \<noteq> []"
    by (simp add: rising_window_def)
  have t: "trend_rule rising_window = ''deteriorating''"
    by code_simp
  have c: "change heart_rate_series rising_window = 20"
    by code_simp
  have l: "length rising_window \<noteq> 1"
    by (simp add: rising_window_def)
  have r: "rev rising_window \<noteq> []" "rounded_trend_window \<noteq> []"
    by (simp_all add: rising_window_def rounded_trend_window_def)
  have t2: "trend_rule (rev rising_window) = ''improving''"
    by code_simp
  have t3: "trend_rule rounded_trend_window = ''stable''"
    by code_simp
  show ?thesis
    using ne t c l t2 t3 trend_label_rule [OF ne, of no_assessment]
      trend_label_rule [OF r(1), of no_assessment]
      trend_label_rule [OF r(2), of no_assessment]
    by simp
qed

section \<open>Strings\<close>

text \<open>
  Two kinds of text occur. The text of an exception, \<open>str(e)\<close>, is searched for two ASCII
  patterns only; it is kept as a list of characters, with \<open>py_lower\<close> mapping the 26
  capital letters. A summary and a patient identifier are arbitrary Python strings: they
  are kept as lists of code points (see the validator below). In both, the operator
  \<open>in\<close> on two strings is the contiguous-sublist test \<open>sublist\<close>.
\<close>

definition upper_letters :: string where
  "upper_letters = ''ABCDEFGHIJKLMNOPQRSTUVWXYZ''"

definition lower_letters :: string where
  "lower_letters = ''abcdefghijklmnopqrstuvwxyz''"

definition char_lower :: "char \<Rightarrow> char" where
  "char_lower c = (case map_of (zip upper_letters lower_letters) c of Some d \<Rightarrow> d | None \<Rightarrow> c)"

definition py_lower :: "string \<Rightarrow> string" where
  "py_lower s = map char_lower s"

text \<open>The decimal rendering of a natural number, as an f-string prints an int.\<close>

definition digit_char :: "nat \<Rightarrow> char" where
  "digit_char d = ''0123456789'' ! d"

fun show_nat :: "nat \<Rightarrow> string" where
  "show_nat n =
     (if n < 10 then [digit_char n]
      else show_nat (n div 10) @ [digit_char (n mod 10)])"

declare show_nat.simps [simp del]

section \<open>Summary service: validation\<close>

text \<open>
  A Python string is the list of its code points; a literal of the source is the list of
  the codes of its characters. \<open>str.upper\<close>, \<open>str.lower\<close> and \<open>str.split\<close> belong to
  the language's library and cover all of Unicode: the validator takes them as a
  parameter, so that what is proved of it holds for whatever the library does on every
  string.
\<close>

type_synonym pystr = "int list"

definition lit :: "string \<Rightarrow> pystr" where
  "lit s = map of_char s"

record str_library =
  str_upper :: "pystr \<Rightarrow> pystr"
  str_lower :: "pystr \<Rightarrow> pystr"
  str_split :: "pystr \<Rightarrow> pystr list"

definition MIN_SUMMARY_WORDS :: nat where "MIN_SUMMARY_WORDS = 50"
definition MAX_SUMMARY_WORDS_BUFFER :: nat where "MAX_SUMMARY_WORDS_BUFFER = 250"

definition strict_diagnosis_patterns :: "pystr list" where
  "strict_diagnosis_patterns =
     map lit [''diagnosed with'', ''diagnosis of'', ''patient has'', ''patient is suffering'',
              ''condition is'']"

definition strict_treatment_patterns :: "pystr list" where
  "strict_treatment_patterns =
     map lit [''recommend treatment'', ''prescribe'', ''administer'', ''should be given'',
              ''requires medication'']"

definition time_keywords :: "pystr list" where
  "time_keywords = map lit [''hour'', ''time'', ''period'', ''window'', ''monitoring'']"

definition risk_keywords :: "pystr list" where
  "risk_keywords =
     map lit [''risk'', ''low'', ''moderate'', ''high'', ''normal'', ''concerning'']"

text \<open>
  \<open>for pattern in patterns: if pattern in summary_lower: return ...\<close>: the first pattern,
  in list order, that occurs in the text.
\<close>

primrec first_pattern_in :: "pystr list \<Rightarrow> pystr \<Rightarrow> pystr option" where
  "first_pattern_in [] s = None"
| "first_pattern_in (p # ps) s = (if sublist p s then Some p else first_pattern_in ps s)"

text \<open>The quotation mark that the two phrase messages put around the pattern.\<close>

definition quote_mark :: pystr where
  "quote_mark = [39]"

definition validate_summary :: "str_library \<Rightarrow> pystr \<Rightarrow> pystr \<Rightarrow> bool \<times> pystr option" where
  "validate_summary lib summary_text patient_id =
     (if summary_text = [] then (False, Some (lit ''summary is empty''))
      else
        let word_count = length (str_split lib summary_text)
        in if word_count < MIN_SUMMARY_WORDS
           then (False, Some (lit ''summary too short ('' @ lit (show_nat word_count)
                                @ lit '' words, minimum '' @ lit (show_nat MIN_SUMMARY_WORDS)
                                @ lit '')''))
           else if word_count > MAX_SUMMARY_WORDS_BUFFER
           then (False, Some (lit ''summary too long ('' @ lit (show_nat word_count)
                                @ lit '' words, maximum ''
                                @ lit (show_nat MAX_SUMMARY_WORDS_BUFFER) @ lit '')''))
           else if \<not> sublist (str_upper lib patient_id) (str_upper lib summary_text)
           then (False, Some (lit ''summary does not reference patient '' @ patient_id))
           else
             let summary_lower = str_lower lib summary_text
             in case first_pattern_in strict_diagnosis_patterns summary_lower of
                  Some pattern \<Rightarrow>
                    (False, Some (lit ''contains diagnostic language: '' @ quote_mark
                                    @ pattern @ quote_mark))
                | None \<Rightarrow>
                (case first_pattern_in strict_treatment_patterns summary_lower of
                   Some pattern \<Rightarrow>
                     (False, Some (lit ''contains treatment recommendation: '' @ quote_mark
                                     @ pattern @ quote_mark))
                 | None \<Rightarrow>
                   if \<not> list_ex (\<lambda>keyword. sublist keyword summary_lower) time_keywords
                   then (False, Some (lit ''summary does not mention time window''))
                   else if \<not> list_ex (\<lambda>keyword. sublist keyword summary_lower) risk_keywords
                   then (False, Some (lit ''summary does not mention risk assessment''))
                   else (True, None)))"

text \<open>
  The validator in the words of the specification: an ordered list of checks, each a
  failure condition with its reason; the first failing check decides, and a text that fails
  none is valid. Each diagnostic and each treatment phrase is a check of its own.
\<close>

definition too_short_reason :: "nat \<Rightarrow> pystr" where
  "too_short_reason n =
     lit ''summary too short ('' @ lit (show_nat n) @ lit '' words, minimum 50)''"

definition too_long_reason :: "nat \<Rightarrow> pystr" where
  "too_long_reason n =
     lit ''summary too long ('' @ lit (show_nat n) @ lit '' words, maximum 250)''"

definition diagnostic_reason :: "pystr \<Rightarrow> pystr" where
  "diagnostic_reason p = lit ''contains diagnostic language: '' @ quote_mark @ p @ quote_mark"

definition treatment_reason :: "pystr \<Rightarrow> pystr" where
  "treatment_reason p =
     lit ''contains treatment recommendation: '' @ quote_mark @ p @ quote_mark"

definition diagnostic_phrases :: "pystr list" where
  "diagnostic_phrases =
     [lit ''diagnosed with'', lit ''diagnosis of'', lit ''patient has'',
      lit ''patient is suffering'', lit ''condition is'']"

definition treatment_phrases :: "pystr list" where
  "treatment_phrases =
     [lit ''recommend treatment'', lit ''prescribe'', lit ''administer'',
      lit ''should be given'', lit ''requires medication'']"

definition checks :: "str_library \<Rightarrow> pystr \<Rightarrow> pystr \<Rightarrow> (bool \<times> pystr) list" where
  "checks lib text pid =
     (let n = length (str_split lib text); low = str_lower lib text
      in [(text = [], lit ''summary is empty''),
          (n < 50, too_short_reason n),
          (n > 250, too_long_reason n),
          (\<not> sublist (str_upper lib pid) (str_upper lib text),
             lit ''summary does not reference patient '' @ pid)]
         @ map (\<lambda>p. (sublist p low, diagnostic_reason p)) diagnostic_phrases
         @ map (\<lambda>p. (sublist p low, treatment_reason p)) treatment_phrases
         @ [(\<not> list_ex (\<lambda>k. sublist k low)
                   [lit ''hour'', lit ''time'', lit ''period'', lit ''window'',
                    lit ''monitoring''],
             lit ''summary does not mention time window''),
            (\<not> list_ex (\<lambda>k. sublist k low)
                   [lit ''risk'', lit ''low'', lit ''moderate'', lit ''high'', lit ''normal'',
                    lit ''concerning''],
             lit ''summary does not mention risk assessment'')])"

definition first_failing :: "(bool \<times> pystr) list \<Rightarrow> bool \<times> pystr option" where
  "first_failing cs = (case find fst cs of Some (_, r) \<Rightarrow> (False, Some r) | None \<Rightarrow> (True, None))"

text \<open>
  What the three library functions do on a string of ASCII characters: the 26 letters
  change case, and a string is cut at runs of the characters with codes 9 to 13 and 28
  to 32, empty pieces dropped.
\<close>

definition ascii_upper :: "pystr \<Rightarrow> pystr" where
  "ascii_upper s = map (\<lambda>c. if 97 \<le> c \<and> c \<le> 122 then c - 32 else c) s"

definition ascii_lower :: "pystr \<Rightarrow> pystr" where
  "ascii_lower s = map (\<lambda>c. if 65 \<le> c \<and> c \<le> 90 then c + 32 else c) s"

definition ascii_space :: "int \<Rightarrow> bool" where
  "ascii_space c \<longleftrightarrow> (9 \<le> c \<and> c \<le> 13) \<or> (28 \<le> c \<and> c \<le> 32)"

primrec split_from :: "pystr \<Rightarrow> pystr \<Rightarrow> pystr list" where
  "split_from cur [] = (if cur = [] then [] else [cur])"
| "split_from cur (c # cs) =
     (if ascii_space c
      then (if cur = [] then split_from [] cs else cur # split_from [] cs)
      else split_from (cur @ [c]) cs)"

definition ascii_split :: "pystr \<Rightarrow> pystr list" where
  "ascii_split s = split_from [] s"

definition ascii_library :: str_library where
  "ascii_library =
     \<lparr>str_upper = ascii_upper, str_lower = ascii_lower, str_split = ascii_split\<rparr>"

text \<open>
  A summary of exactly fifty words, all ASCII, in which the word diagnosis stands alone,
  and the same summary with a diagnostic phrase appended.
\<close>

definition sample_summary :: pystr where
  "sample_summary =
     lit ''summary for PATIENT_001 over the last two hours of monitoring. heart rate averaged 75 bpm and oxygen saturation averaged 98 percent. blood pressure averaged 120 over 80 and respiratory rate averaged 16. overall trend is stable and risk level is low. this report offers no diagnosis and lists data only''"

definition sample_diagnosing :: pystr where
  "sample_diagnosing = sample_summary @ lit '' the Patient Has a fever''"

section \<open>Properties of the validator\<close>

lemma show_nat_50: "show_nat 50 = ''50''"
  by (simp add: show_nat.simps digit_char_def)

lemma show_nat_250: "show_nat 250 = ''250''"
  by (simp add: show_nat.simps digit_char_def)

lemma lit_append: "lit (s @ t) = lit s @ lit t"
  by (simp add: lit_def)

lemma first_failing_Cons:
  "first_failing ((b, r) # cs) = (if b then (False, Some r) else first_failing cs)"
  by (simp add: first_failing_def)

lemma first_failing_Nil: "first_failing [] = (True, None)"
  by (simp add: first_failing_def)

lemma validate_summary_checks:
  "validate_summary lib text pid = first_failing (checks lib text pid)"
  by (simp add: validate_summary_def checks_def Let_def
      first_failing_Cons first_failing_Nil MIN_SUMMARY_WORDS_def MAX_SUMMARY_WORDS_BUFFER_def
      show_nat_50 show_nat_250 too_short_reason_def too_long_reason_def
      diagnostic_reason_def treatment_reason_def diagnostic_phrases_def treatment_phrases_def
      strict_diagnosis_patterns_def strict_treatment_patterns_def
      time_keywords_def risk_keywords_def lit_append [symmetric])

lemma lit_Cons: "lit (c # cs) = of_char c # lit cs"
  by (simp add: lit_def)

lemma lit_Nil: "lit [] = []"
  by (simp add: lit_def)

lemma checks_reasons_distinct: "distinct (map snd (checks lib text pid))"
  by (simp add: checks_def Let_def too_short_reason_def too_long_reason_def
      diagnostic_reason_def treatment_reason_def diagnostic_phrases_def
      treatment_phrases_def quote_mark_def lit_Cons lit_Nil)

lemma first_pattern_in_Some:
  "first_pattern_in ps s = Some p \<Longrightarrow> p \<in> set ps \<and> sublist p s"
  by (induction ps) (auto split: if_splits)

lemma no_length_rejection:
  assumes "50 \<le> length (str_split lib text)" and "length (str_split lib text) \<le> 250"
  shows "snd (validate_summary lib text pid) \<noteq> Some (too_short_reason n)
         \<and> snd (validate_summary lib text pid) \<noteq> Some (too_long_reason n)"
  using assms
  by (auto simp: validate_summary_def Let_def MIN_SUMMARY_WORDS_def
      MAX_SUMMARY_WORDS_BUFFER_def too_short_reason_def too_long_reason_def
      quote_mark_def lit_Cons lit_Nil split: option.splits)

lemma no_phrase_rejection:
  assumes "\<not> list_ex (\<lambda>p. sublist p (str_lower lib text))
               (strict_diagnosis_patterns @ strict_treatment_patterns)"
  shows "snd (validate_summary lib text pid) \<noteq> Some (diagnostic_reason p)
         \<and> snd (validate_summary lib text pid) \<noteq> Some (treatment_reason p)"
proof -
  have d: "first_pattern_in strict_diagnosis_patterns (str_lower lib text) = None"
    using assms first_pattern_in_Some [of strict_diagnosis_patterns "str_lower lib text"]
    by (cases "first_pattern_in strict_diagnosis_patterns (str_lower lib text)")
       (auto simp: list_ex_iff)
  have t: "first_pattern_in strict_treatment_patterns (str_lower lib text) = None"
    using assms first_pattern_in_Some [of strict_treatment_patterns "str_lower lib text"]
    by (cases "first_pattern_in strict_treatment_patterns (str_lower lib text)")
       (auto simp: list_ex_iff)
  show ?thesis
    by (auto simp: validate_summary_def Let_def d t diagnostic_reason_def treatment_reason_def
        quote_mark_def lit_Cons lit_Nil)
qed

lemma sample_summary_words: "length (str_split ascii_library sample_summary) = 50"
  by code_simp

lemma sample_summary_diagnosis:
  "sublist (lit ''diagnosis'') (str_lower ascii_library sample_summary)"
  by code_simp

lemma sample_summary_clean:
  "\<not> list_ex (\<lambda>p. sublist p (str_lower ascii_library sample_summary))
        (strict_diagnosis_patterns @ strict_treatment_patterns)"
  by code_simp

lemma sample_summary_valid:
  "validate_summary ascii_library sample_summary (lit ''patient_001'') = (True, None)"
  by code_simp

lemma sample_summary_other_patient:
  "validate_summary ascii_library sample_summary (lit ''PATIENT_002'') =
     (False, Some (lit ''summary does not reference patient PATIENT_002''))"
  by code_simp

lemma sample_diagnosing_rejected:
  "validate_summary ascii_library sample_diagnosing (lit ''patient_001'') =
     (False, Some (diagnostic_reason (lit ''patient has'')))"
  by code_simp

text \<open>
  Claim C5. \<open>validate_summary\<close> returns the verdict of the first failing check in the
  fixed order: empty text; fewer than 50 words; more than 250 words; patient identifier
  absent (case-insensitively: both sides upper-cased); each of the five diagnostic phrases;
  each of the five treatment phrases; no time keyword; no risk keyword; and (True, None)
  when no check fails. The reasons of the checks are pairwise distinct. A text of exactly
  50 or exactly 250 words is never rejected for its length. A text whose lower-cased form
  contains none of the ten listed phrases is never rejected for diagnostic or treatment
  language, whatever other words it contains. All of this holds for every string and
  every behaviour of the library's \<open>upper\<close>, \<open>lower\<close> and \<open>split\<close>.
\<close>

theorem validate_summary_order:
  "validate_summary lib text pid = first_failing (checks lib text pid)
   \<and> distinct (map snd (checks lib text pid))
   \<and> (length (str_split lib text) = 50 \<or> length (str_split lib text) = 250 \<longrightarrow>
        (\<forall>n. snd (validate_summary lib text pid) \<noteq> Some (too_short_reason n)
           \<and> snd (validate_summary lib text pid) \<noteq> Some (too_long_reason n)))
   \<and> (\<not> list_ex (\<lambda>p. sublist p (str_lower lib text))
            (strict_diagnosis_patterns @ strict_treatment_patterns) \<longrightarrow>
        (\<forall>p. snd (validate_summary lib text pid) \<noteq> Some (diagnostic_reason p)
           \<and> snd (validate_summary lib text pid) \<noteq> Some (treatment_reason p)))"
proof -
  have l: "length (str_split lib text) = 50 \<or> length (str_split lib text) = 250 \<longrightarrow>
        (\<forall>n. snd (validate_summary lib text pid) \<noteq> Some (too_short_reason n)
           \<and> snd (validate_summary lib text pid) \<noteq> Some (too_long_reason n))"
    using no_length_rejection [of lib "text" pid] by auto
  have p: "\<not> list_ex (\<lambda>p. sublist p (str_lower lib text))
            (strict_diagnosis_patterns @ strict_treatment_patterns) \<longrightarrow>
        (\<forall>p. snd (validate_summary lib text pid) \<noteq> Some (diagnostic_reason p)
           \<and> snd (validate_summary lib text pid) \<noteq> Some (treatment_reason p))"
    using no_phrase_rejection [of lib "text" pid] by blast
  show ?thesis
    using l p validate_summary_checks [of lib "text" pid]
      checks_reasons_distinct [of lib "text" pid]
    by blast
qed

theorem validate_summary_order_witness:
  "length (str_split ascii_library sample_summary) = 50
   \<and> sublist (lit ''diagnosis'') (str_lower ascii_library sample_summary)
   \<and> validate_summary ascii_library sample_summary (lit ''patient_001'') = (True, None)
   \<and> first_failing (checks ascii_library sample_summary (lit ''patient_001'')) = (True, None)
   \<and> snd (validate_summary ascii_library sample_summary (lit ''patient_001''))
        \<noteq> Some (too_short_reason 50)
   \<and> snd (validate_summary ascii_library sample_summary (lit ''patient_001''))
        \<noteq> Some (diagnostic_reason (lit ''diagnosis of''))
   \<and> validate_summary ascii_library sample_summary (lit ''PATIENT_002'') =
        (False, Some (lit ''summary does not reference patient PATIENT_002''))
   \<and> validate_summary ascii_library sample_diagnosing (lit ''patient_001'') =
        (False, Some (diagnostic_reason (lit ''patient has'')))"
proof -
  note t = validate_summary_order [of ascii_library sample_summary "lit ''patient_001''"]
  have a: "first_failing (checks ascii_library sample_summary (lit ''patient_001''))
             = (True, None)"
    using t sample_summary_valid by simp
  have b: "snd (validate_summary ascii_library sample_summary (lit ''patient_001''))
        \<noteq> Some (too_short_reason 50)"
    using t sample_summary_words by blast
  have c: "snd (validate_summary ascii_library sample_summary (lit ''patient_001''))
        \<noteq> Some (diagnostic_reason (lit ''diagnosis of''))"
    using t sample_summary_clean by blast
  show ?thesis
    using a b c sample_summary_words sample_summary_diagnosis sample_summary_valid
      sample_summary_other_patient sample_diagnosing_rejected
    by blast
qed

section \<open>Summary service: the retrying model invoker\<close>

definition RETRY_MAX_ATTEMPTS :: nat where "RETRY_MAX_ATTEMPTS = 3"
definition RETRY_BACKOFF_FACTOR :: rat where "RETRY_BACKOFF_FACTOR = 2"
definition MODEL_NAME :: string where "MODEL_NAME = ''claude-3-5-haiku-20241022''"

text \<open>
  The request handed to \<open>client.messages.create\<close>, and the response it returns: the
  content blocks (each with its \<open>text\<close> attribute, if it has one), the model name and
  the two token counts.
\<close>

record api_request =
  request_model :: string
  request_max_tokens :: nat
  request_temperature :: rat
  request_system :: string
  request_user_content :: string

record api_response =
  response_content :: "string option list"
  response_model :: string
  response_input_tokens :: nat
  response_output_tokens :: nat

record api_result =
  content :: string
  model :: string
  usage_input_tokens :: nat
  usage_output_tokens :: nat

text \<open>
  The world outside the function: how many transport calls have been made, and the waits
  passed to \<open>time.sleep\<close>, oldest first. The transport is a script: the outcome of the
  call number \<open>k\<close> (counted from 0 over the life of the world) on a given request, either
  the text \<open>str(e)\<close> of the exception raised or a response.
\<close>

record api_world =
  calls_made :: nat
  sleeps :: "rat list"

type_synonym transport = "api_request \<Rightarrow> nat \<Rightarrow> string + api_response"

definition extract_result :: "api_response \<Rightarrow> api_result" where
  "extract_result response =
     \<lparr>content = (case response_content response of
                    [] \<Rightarrow> []
                  | first_block # _ \<Rightarrow> (case first_block of Some t \<Rightarrow> t | None \<Rightarrow> [])),
      model = response_model response,
      usage_input_tokens = response_input_tokens response,
      usage_output_tokens = response_output_tokens response\<rparr>"

definition is_auth_error :: "string \<Rightarrow> bool" where
  "is_auth_error e \<longleftrightarrow> sublist ''401'' e \<or> sublist ''authentication'' (py_lower e)"

definition show_last_error :: "string option \<Rightarrow> string" where
  "show_last_error last_error = (case last_error of None \<Rightarrow> ''None'' | Some e \<Rightarrow> e)"

text \<open>
  The \<open>for attempt in range(RETRY_MAX_ATTEMPTS)\<close> loop, entered at \<open>attempt\<close>, with the
  statement after the loop as its exit.
\<close>

function attempt_loop ::
    "transport \<Rightarrow> api_request \<Rightarrow> nat \<Rightarrow> string option \<Rightarrow> api_world
       \<Rightarrow> (summary_error + api_result) \<times> api_world" where
  "attempt_loop tr req attempt last_error w =
     (if attempt < RETRY_MAX_ATTEMPTS
      then
        (case tr req (calls_made w) of
           Inr response \<Rightarrow>
             (Inr (extract_result response), w\<lparr>calls_made := calls_made w + 1\<rparr>)
         | Inl e \<Rightarrow>
             if is_auth_error e
             then (Inl (APIError (''authentication failed: '' @ e)),
                   w\<lparr>calls_made := calls_made w + 1\<rparr>)
             else if attempt < RETRY_MAX_ATTEMPTS - 1
             then attempt_loop tr req (attempt + 1) (Some e)
                    (w\<lparr>calls_made := calls_made w + 1,
                       sleeps := sleeps w @ [RETRY_BACKOFF_FACTOR ^ attempt]\<rparr>)
             else attempt_loop tr req (attempt + 1) (Some e)
                    (w\<lparr>calls_made := calls_made w + 1\<rparr>))
      else (Inl (APIError (''claude api call failed after '' @ show_nat RETRY_MAX_ATTEMPTS
                             @ '' attempts: '' @ show_last_error last_error)), w))"
  by pat_completeness auto
termination
  by (relation "measure (\<lambda>(tr, req, attempt, last_error, w). RETRY_MAX_ATTEMPTS - attempt)") auto

declare attempt_loop.simps [simp del]

text \<open>
  \<open>call_claude_api\<close>: the environment variable is an optional string, and \<open>not api_key\<close>
  holds when it is unset or empty.
\<close>

definition call_claude_api ::
    "string option \<Rightarrow> transport \<Rightarrow> string \<Rightarrow> string \<Rightarrow> nat \<Rightarrow> rat \<Rightarrow> api_world
       \<Rightarrow> (summary_error + api_result) \<times> api_world" where
  "call_claude_api api_key tr system_prompt user_prompt max_tokens temperature w =
     (if api_key = None \<or> api_key = Some []
      then (Inl (ValueError ''ANTHROPIC_API_KEY environment variable not set''), w)
      else attempt_loop tr
             \<lparr>request_model = MODEL_NAME, request_max_tokens = max_tokens,
              request_temperature = temperature, request_system = system_prompt,
              request_user_content = user_prompt\<rparr>
             0 None w)"

text \<open>The request built from the arguments, to name the transport's outcomes.\<close>

definition the_request :: "string \<Rightarrow> string \<Rightarrow> nat \<Rightarrow> rat \<Rightarrow> api_request" where
  "the_request system_prompt user_prompt max_tokens temperature =
     \<lparr>request_model = MODEL_NAME, request_max_tokens = max_tokens,
      request_temperature = temperature, request_system = system_prompt,
      request_user_content = user_prompt\<rparr>"

text \<open>
  The outcome of the \<open>j\<close>-th attempt of one invocation started in world \<open>w\<close> is a
  failure other than an authentication failure.
\<close>

definition retryable_failure :: "transport \<Rightarrow> api_request \<Rightarrow> api_world \<Rightarrow> nat \<Rightarrow> bool" where
  "retryable_failure tr req w j \<longleftrightarrow>
     (case tr req (calls_made w + j) of Inl e \<Rightarrow> \<not> is_auth_error e | Inr _ \<Rightarrow> False)"

text \<open>Two transports: one times out twice and then answers, one always times out.\<close>

definition sample_response :: api_response where
  "sample_response =
     \<lparr>response_content = [Some ''summary text''], response_model = MODEL_NAME,
      response_input_tokens = 120, response_output_tokens = 80\<rparr>"

definition flaky_transport :: transport where
  "flaky_transport req k = (if k < 2 then Inl ''request timed out'' else Inr sample_response)"

definition down_transport :: transport where
  "down_transport req k = Inl ''request timed out''"

definition denied_transport :: transport where
  "denied_transport req k =
     (if k = 0 then Inl ''rate limited'' else Inl ''Error code: 401 - invalid x-api-key'')"

definition fresh_world :: api_world where
  "fresh_world = \<lparr>calls_made = 0, sleeps = []\<rparr>"

section \<open>Properties of the invoker\<close>

lemma attempt_loop_exit:
  "attempt_loop tr req (Suc (Suc (Suc 0))) last_error w =
     (Inl (APIError (''claude api call failed after 3 attempts: '' @ show_last_error last_error)),
      w)"
  by (subst attempt_loop.simps) (simp add: RETRY_MAX_ATTEMPTS_def show_nat.simps
      digit_char_def)

lemma attempt_loop_2:
  "attempt_loop tr req (Suc (Suc 0)) last_error w =
     (case tr req (calls_made w) of
        Inr response \<Rightarrow> (Inr (extract_result response), w\<lparr>calls_made := calls_made w + 1\<rparr>)
      | Inl e \<Rightarrow>
          if is_auth_error e
          then (Inl (APIError (''authentication failed: '' @ e)),
                w\<lparr>calls_made := calls_made w + 1\<rparr>)
          else (Inl (APIError (''claude api call failed after 3 attempts: '' @ e)),
                w\<lparr>calls_made := calls_made w + 1\<rparr>))"
  by (subst attempt_loop.simps) (simp add: RETRY_MAX_ATTEMPTS_def attempt_loop_exit
      show_last_error_def split: sum.splits)

lemma attempt_loop_1:
  "attempt_loop tr req (Suc 0) last_error w =
     (case tr req (calls_made w) of
        Inr response \<Rightarrow> (Inr (extract_result response), w\<lparr>calls_made := calls_made w + 1\<rparr>)
      | Inl e \<Rightarrow>
          if is_auth_error e
          then (Inl (APIError (''authentication failed: '' @ e)),
                w\<lparr>calls_made := calls_made w + 1\<rparr>)
          else attempt_loop tr req (Suc (Suc 0)) (Some e)
                 (w\<lparr>calls_made := calls_made w + 1, sleeps := sleeps w @ [2]\<rparr>))"
  by (subst attempt_loop.simps) (simp add: RETRY_MAX_ATTEMPTS_def
      RETRY_BACKOFF_FACTOR_def split: sum.splits)

lemma attempt_loop_0:
  "attempt_loop tr req 0 last_error w =
     (case tr req (calls_made w) of
        Inr response \<Rightarrow> (Inr (extract_result response), w\<lparr>calls_made := calls_made w + 1\<rparr>)
      | Inl e \<Rightarrow>
          if is_auth_error e
          then (Inl (APIError (''authentication failed: '' @ e)),
                w\<lparr>calls_made := calls_made w + 1\<rparr>)
          else attempt_loop tr req (Suc 0) (Some e)
                 (w\<lparr>calls_made := calls_made w + 1, sleeps := sleeps w @ [1]\<rparr>))"
  by (subst attempt_loop.simps) (simp add: RETRY_MAX_ATTEMPTS_def
      RETRY_BACKOFF_FACTOR_def split: sum.splits)

lemma attempt_loop_calls_bound:
  "calls_made (snd (attempt_loop tr req 0 None w)) \<le> calls_made w + 3"
  by (simp add: attempt_loop_0 attempt_loop_1 attempt_loop_2 split: sum.splits)

lemma attempt_loop_first:
  assumes "tr req (calls_made w) = out"
  shows "(out = Inr response \<longrightarrow>
            attempt_loop tr req 0 None w =
              (Inr (extract_result response), w\<lparr>calls_made := calls_made w + 1\<rparr>))
       \<and> (out = Inl e \<and> is_auth_error e \<longrightarrow>
            attempt_loop tr req 0 None w =
              (Inl (APIError (''authentication failed: '' @ e)),
               w\<lparr>calls_made := calls_made w + 1\<rparr>))"
  using assms by (auto simp: attempt_loop_0)

lemma attempt_loop_second:
  assumes "retryable_failure tr req w 0" and "tr req (calls_made w + 1) = out"
  shows "(out = Inr response \<longrightarrow>
            attempt_loop tr req 0 None w =
              (Inr (extract_result response),
               w\<lparr>calls_made := calls_made w + 2, sleeps := sleeps w @ [1]\<rparr>))
       \<and> (out = Inl e \<and> is_auth_error e \<longrightarrow>
            attempt_loop tr req 0 None w =
              (Inl (APIError (''authentication failed: '' @ e)),
               w\<lparr>calls_made := calls_made w + 2, sleeps := sleeps w @ [1]\<rparr>))"
  using assms
  by (auto simp: retryable_failure_def attempt_loop_0 attempt_loop_1 split: sum.splits)

lemma attempt_loop_third:
  assumes "retryable_failure tr req w 0" and "retryable_failure tr req w 1"
    and "tr req (calls_made w + 2) = out"
  shows "(out = Inr response \<longrightarrow>
            attempt_loop tr req 0 None w =
              (Inr (extract_result response),
               w\<lparr>calls_made := calls_made w + 3, sleeps := sleeps w @ [1, 2]\<rparr>))
       \<and> (out = Inl e \<and> is_auth_error e \<longrightarrow>
            attempt_loop tr req 0 None w =
              (Inl (APIError (''authentication failed: '' @ e)),
               w\<lparr>calls_made := calls_made w + 3, sleeps := sleeps w @ [1, 2]\<rparr>))
       \<and> (out = Inl e \<and> \<not> is_auth_error e \<longrightarrow>
            attempt_loop tr req 0 None w =
              (Inl (APIError (''claude api call failed after 3 attempts: '' @ e)),
               w\<lparr>calls_made := calls_made w + 3, sleeps := sleeps w @ [1, 2]\<rparr>))"
  using assms
  by (auto simp: retryable_failure_def attempt_loop_0 attempt_loop_1 attempt_loop_2
      split: sum.splits)

lemma less_3_cases: "(k::nat) < 3 \<Longrightarrow> k = 0 \<or> k = 1 \<or> k = 2"
  by arith

lemma upt_3: "[0..<3] = [0, 1, 2]" and upt_2: "[0..<2] = [0, 1]" and upt_1: "[0..<1] = [0]"
  by (simp_all add: upt_rec)

lemma not_auth_timed_out: "\<not> is_auth_error ''request timed out''"
  by code_simp

lemma not_auth_rate_limited: "\<not> is_auth_error ''rate limited''"
  by code_simp

lemma auth_401: "is_auth_error ''Error code: 401 - invalid x-api-key''"
  by code_simp


text \<open>
  Claim C4. With the API key unset or empty, \<open>call_claude_api\<close> raises the configuration
  error and makes no transport call. Otherwise it makes at most 3 transport calls. If the
  attempts before attempt index \<open>k < 3\<close> all failed without an authentication failure,
  then: a response at attempt \<open>k\<close> is returned; an error at attempt \<open>k\<close> whose text
  contains 401 or, case-insensitively, authentication is raised at once as an API error;
  in both cases exactly \<open>k + 1\<close> calls were made and the waits were \<open>2 ^ j\<close> seconds
  after each earlier attempt \<open>j\<close> (1 second after the first, 2 seconds after the second),
  with no wait after attempt \<open>k\<close>. If all three attempts fail without an authentication
  failure, the API error wrapping the text of the third failure is raised after exactly 3
  calls and the waits 1 and 2.
\<close>

theorem call_claude_api_retry_policy:
  "calls_made (snd (call_claude_api key tr sp up mt temp w)) \<le> calls_made w + 3
   \<and> (key = None \<or> key = Some [] \<longrightarrow>
        call_claude_api key tr sp up mt temp w =
          (Inl (ValueError ''ANTHROPIC_API_KEY environment variable not set''), w))
   \<and> (key \<noteq> None \<and> key \<noteq> Some [] \<and> k < 3
        \<and> (\<forall>j < k. retryable_failure tr (the_request sp up mt temp) w j)
        \<and> tr (the_request sp up mt temp) (calls_made w + k) = Inr response \<longrightarrow>
        call_claude_api key tr sp up mt temp w =
          (Inr (extract_result response),
           w\<lparr>calls_made := calls_made w + k + 1,
             sleeps := sleeps w @ map (\<lambda>j. 2 ^ j) [0..<k]\<rparr>))
   \<and> (key \<noteq> None \<and> key \<noteq> Some [] \<and> k < 3
        \<and> (\<forall>j < k. retryable_failure tr (the_request sp up mt temp) w j)
        \<and> tr (the_request sp up mt temp) (calls_made w + k) = Inl e
        \<and> is_auth_error e \<longrightarrow>
        call_claude_api key tr sp up mt temp w =
          (Inl (APIError (''authentication failed: '' @ e)),
           w\<lparr>calls_made := calls_made w + k + 1,
             sleeps := sleeps w @ map (\<lambda>j. 2 ^ j) [0..<k]\<rparr>))
   \<and> (key \<noteq> None \<and> key \<noteq> Some []
        \<and> (\<forall>j < 3. retryable_failure tr (the_request sp up mt temp) w j)
        \<and> tr (the_request sp up mt temp) (calls_made w + 2) = Inl e \<longrightarrow>
        call_claude_api key tr sp up mt temp w =
          (Inl (APIError (''claude api call failed after 3 attempts: '' @ e)),
           w\<lparr>calls_made := calls_made w + 3, sleeps := sleeps w @ [1, 2]\<rparr>))"
proof -
  let ?req = "the_request sp up mt temp"
  let ?run = "call_claude_api key tr sp up mt temp w"
  have nokey: "key = None \<or> key = Some [] \<Longrightarrow>
      ?run = (Inl (ValueError ''ANTHROPIC_API_KEY environment variable not set''), w)"
    by (auto simp: call_claude_api_def)
  have haskey: "key \<noteq> None \<and> key \<noteq> Some [] \<Longrightarrow> ?run = attempt_loop tr ?req 0 None w"
    by (auto simp: call_claude_api_def the_request_def)
  have bound: "calls_made (snd ?run) \<le> calls_made w + 3"
  proof (cases "key = None \<or> key = Some []")
    case True
    then show ?thesis using nokey by simp
  next
    case False
    then show ?thesis using haskey attempt_loop_calls_bound [of tr ?req w] by simp
  qed
  have ok: "?run = (Inr (extract_result response),
                w\<lparr>calls_made := calls_made w + k + 1,
                  sleeps := sleeps w @ map (\<lambda>j. 2 ^ j) [0..<k]\<rparr>)"
    if h: "key \<noteq> None \<and> key \<noteq> Some []" "k < 3"
      "\<forall>j < k. retryable_failure tr ?req w j"
      "tr ?req (calls_made w + k) = Inr response"
  proof -
    from h(2) consider "k = 0" | "k = 1" | "k = 2" using less_3_cases by blast
    then show ?thesis
    proof cases
      case 1
      then show ?thesis
        using h attempt_loop_first [of tr ?req w "Inr response" response e] haskey by simp
    next
      case 2
      then show ?thesis
        using h attempt_loop_second [of tr ?req w "Inr response" response e] haskey
        by (simp add: upt_1)
    next
      case 3
      then show ?thesis
        using h attempt_loop_third [of tr ?req w "Inr response" response e] haskey
        by (simp add: upt_2)
    qed
  qed
  have auth: "?run = (Inl (APIError (''authentication failed: '' @ e)),
                w\<lparr>calls_made := calls_made w + k + 1,
                  sleeps := sleeps w @ map (\<lambda>j. 2 ^ j) [0..<k]\<rparr>)"
    if h: "key \<noteq> None \<and> key \<noteq> Some []" "k < 3"
      "\<forall>j < k. retryable_failure tr ?req w j"
      "tr ?req (calls_made w + k) = Inl e" "is_auth_error e"
  proof -
    from h(2) consider "k = 0" | "k = 1" | "k = 2" using less_3_cases by blast
    then show ?thesis
    proof cases
      case 1
      then show ?thesis
        using h attempt_loop_first [of tr ?req w "Inl e" response e] haskey by simp
    next
      case 2
      then show ?thesis
        using h attempt_loop_second [of tr ?req w "Inl e" response e] haskey
        by (simp add: upt_1)
    next
      case 3
      then show ?thesis
        using h attempt_loop_third [of tr ?req w "Inl e" response e] haskey
        by (simp add: upt_2)
    qed
  qed
  have exhausted: "?run = (Inl (APIError (''claude api call failed after 3 attempts: '' @ e)),
                w\<lparr>calls_made := calls_made w + 3, sleeps := sleeps w @ [1, 2]\<rparr>)"
    if h: "key \<noteq> None \<and> key \<noteq> Some []"
      "\<forall>j < 3. retryable_failure tr ?req w j"
      "tr ?req (calls_made w + 2) = Inl e"
  proof -
    have r0: "retryable_failure tr ?req w 0" and r1: "retryable_failure tr ?req w 1"
      and r2: "retryable_failure tr ?req w 2"
      using h(2) by simp_all
    have na: "\<not> is_auth_error e"
      using r2 h(3) by (simp add: retryable_failure_def)
    show ?thesis
      using attempt_loop_third [OF r0 r1 h(3), of response e] na haskey h(1) by simp
  qed
  show ?thesis
    using bound nokey ok auth exhausted by blast
qed

theorem call_claude_api_retry_policy_witness:
  "call_claude_api None flaky_transport ''system'' ''user'' 300 (3 / 10) fresh_world =
     (Inl (ValueError ''ANTHROPIC_API_KEY environment variable not set''), fresh_world)
   \<and> call_claude_api (Some ''sk-test'') flaky_transport ''system'' ''user'' 300 (3 / 10)
        fresh_world =
     (Inr (extract_result sample_response), \<lparr>calls_made = 3, sleeps = [1, 2]\<rparr>)
   \<and> call_claude_api (Some ''sk-test'') denied_transport ''system'' ''user'' 300 (3 / 10)
        fresh_world =
     (Inl (APIError ''authentication failed: Error code: 401 - invalid x-api-key''),
      \<lparr>calls_made = 2, sleeps = [1]\<rparr>)
   \<and> call_claude_api (Some ''sk-test'') down_transport ''system'' ''user'' 300 (3 / 10)
        fresh_world =
     (Inl (APIError ''claude api call failed after 3 attempts: request timed out''),
      \<lparr>calls_made = 3, sleeps = [1, 2]\<rparr>)"
proof -
  let ?req = "the_request ''system'' ''user'' 300 (3 / 10)"
  have f: "\<forall>j < 2. retryable_failure flaky_transport ?req fresh_world j"
    by (simp add: retryable_failure_def flaky_transport_def fresh_world_def
        not_auth_timed_out)
  have fr: "flaky_transport ?req (calls_made fresh_world + 2) = Inr sample_response"
    by (simp add: flaky_transport_def fresh_world_def)
  have d: "\<forall>j < 1. retryable_failure denied_transport ?req fresh_world j"
    by (simp add: retryable_failure_def denied_transport_def fresh_world_def
        not_auth_rate_limited)
  have dr: "denied_transport ?req (calls_made fresh_world + 1) =
              Inl ''Error code: 401 - invalid x-api-key''"
    by (simp add: denied_transport_def fresh_world_def)
  have x: "\<forall>j < 3. retryable_failure down_transport ?req fresh_world j"
    by (simp add: retryable_failure_def down_transport_def not_auth_timed_out)
  have xr: "down_transport ?req (calls_made fresh_world + 2) = Inl ''request timed out''"
    by (simp add: down_transport_def)
  have k: "Some ''sk-test'' \<noteq> None \<and> Some ''sk-test'' \<noteq> Some []"
    by simp
  have a: "call_claude_api None flaky_transport ''system'' ''user'' 300 (3 / 10) fresh_world =
     (Inl (ValueError ''ANTHROPIC_API_KEY environment variable not set''), fresh_world)"
    using call_claude_api_retry_policy [of None flaky_transport "''system''" "''user''" 300
        "3 / 10" fresh_world]
    by simp
  have b: "call_claude_api (Some ''sk-test'') flaky_transport ''system'' ''user'' 300 (3 / 10)
        fresh_world =
     (Inr (extract_result sample_response), \<lparr>calls_made = 3, sleeps = [1, 2]\<rparr>)"
    using call_claude_api_retry_policy [of "Some ''sk-test''" flaky_transport "''system''"
        "''user''" 300 "3 / 10" fresh_world 2 sample_response] f fr k
    by (simp add: fresh_world_def upt_2)
  have c: "call_claude_api (Some ''sk-test'') denied_transport ''system'' ''user'' 300 (3 / 10)
        fresh_world =
     (Inl (APIError ''authentication failed: Error code: 401 - invalid x-api-key''),
      \<lparr>calls_made = 2, sleeps = [1]\<rparr>)"
    using call_claude_api_retry_policy [of "Some ''sk-test''" denied_transport "''system''"
        "''user''" 300 "3 / 10" fresh_world 1 sample_response
        "''Error code: 401 - invalid x-api-key''"] d dr k auth_401
    by (simp add: fresh_world_def upt_1)
  have e: "call_claude_api (Some ''sk-test'') down_transport ''system'' ''user'' 300 (3 / 10)
        fresh_world =
     (Inl (APIError ''claude api call failed after 3 attempts: request timed out''),
      \<lparr>calls_made = 3, sleeps = [1, 2]\<rparr>)"
    using call_claude_api_retry_policy [of "Some ''sk-test''" down_transport "''system''"
        "''user''" 300 "3 / 10" fresh_world 0 sample_response "''request timed out''"] x xr k
    by (simp add: fresh_world_def)
  show ?thesis
    using a b c e by blast
qed

section \<open>Call service: data\<close>

text \<open>
  \<open>TwilioRestException\<close> with the four attributes the service reads, and the call
  resource the provider returns. The provider reports a duration as a string of decimal
  digits or not at all; it is modelled by its value. A call to the provider's client can
  fail in two ways: it raises \<open>TwilioRestException\<close> when the provider answers with an
  error, and some other exception (a connection error, a timeout), kept by its text, when
  no answer arrives.
\<close>

record twilio_exception =
  exc_status :: nat
  exc_uri :: string
  exc_msg :: string
  exc_code :: nat

datatype provider_error =
    TwilioRestException twilio_exception
  | OtherException string

record twilio_call =
  sid :: string
  provider_status :: string
  duration :: "nat option"

text \<open>The stored dict of one call, and the dict \<open>get_call_status\<close> returns.\<close>

record call_record =
  call_id :: string
  call_sid :: string
  patient_id :: string
  summary_text :: string
  status :: string
  to_number :: string
  from_number :: string
  created_at :: string
  completed_at :: "string option"
  duration_seconds :: "int option"

record call_view =
  view_call_id :: string
  view_call_sid :: string
  view_status :: string
  view_patient_id :: string
  view_to :: string
  view_from :: string
  view_created_at :: string
  view_completed_at :: "string option"
  view_duration_seconds :: "int option"

record service =
  provider_number :: string
  caller_id :: string
  webhook_base_url :: string
  calls :: "string \<rightharpoonup> call_record"

section \<open>Call service: operations\<close>

definition status_map :: "(string \<times> string) list" where
  "status_map =
     [(''queued'', ''queued''), (''ringing'', ''initiated''),
      (''in-progress'', ''in-progress''), (''completed'', ''completed''),
      (''busy'', ''failed''), (''no-answer'', ''failed''), (''failed'', ''failed''),
      (''canceled'', ''failed'')]"

definition map_twilio_status :: "string \<Rightarrow> string" where
  "map_twilio_status twilio_status =
     (case map_of status_map twilio_status of Some s \<Rightarrow> s | None \<Rightarrow> ''unknown'')"

definition terminal_statuses :: "string list" where
  "terminal_statuses = [''completed'', ''busy'', ''no-answer'', ''failed'', ''canceled'']"

text \<open>
  \<open>start_call\<close>. The eight hex digits of the fresh identifier, the outcome of
  \<open>client.calls.create\<close> and the clock reading are arguments. A
  \<open>TwilioRestException\<close> is re-raised with a prefixed message, any other exception
  passes through, and neither stores anything.
\<close>

definition start_call ::
    "service \<Rightarrow> string \<Rightarrow> string \<Rightarrow> string \<Rightarrow> provider_error + twilio_call \<Rightarrow> string
       \<Rightarrow> (provider_error + string) \<times> service" where
  "start_call svc summary pid uuid_hex created now =
     (let cid = ''call_'' @ take 8 uuid_hex
      in case created of
           Inr call \<Rightarrow>
             (Inr cid,
              svc\<lparr>calls := (calls svc)(cid \<mapsto>
                \<lparr>call_id = cid, call_sid = sid call, patient_id = pid,
                 summary_text = summary,
                 status = map_twilio_status (provider_status call),
                 to_number = provider_number svc, from_number = caller_id svc,
                 created_at = now, completed_at = None, duration_seconds = None\<rparr>)\<rparr>)
         | Inl (TwilioRestException e) \<Rightarrow>
             (Inl (TwilioRestException
                     \<lparr>exc_status = exc_status e, exc_uri = exc_uri e,
                      exc_msg = ''twilio api error: '' @ exc_msg e, exc_code = exc_code e\<rparr>),
              svc)
         | Inl (OtherException m) \<Rightarrow> (Inl (OtherException m), svc))"

definition view_of :: "call_record \<Rightarrow> call_view" where
  "view_of call_data =
     \<lparr>view_call_id = call_id call_data, view_call_sid = call_sid call_data,
      view_status = status call_data, view_patient_id = patient_id call_data,
      view_to = to_number call_data, view_from = from_number call_data,
      view_created_at = created_at call_data, view_completed_at = completed_at call_data,
      view_duration_seconds = duration_seconds call_data\<rparr>"

text \<open>\<open>not call_data["completed_at"]\<close>: unset, or the empty string.\<close>

definition falsy :: "string option \<Rightarrow> bool" where
  "falsy x \<longleftrightarrow> x = None \<or> x = Some []"

text \<open>
  The body of the \<open>try\<close> block after a successful fetch: the three updates of the stored
  dict, in the source's order.
\<close>

definition refresh_record :: "call_record \<Rightarrow> twilio_call \<Rightarrow> string \<Rightarrow> call_record" where
  "refresh_record call_data twilio_call now =
     (let d1 = call_data\<lparr>status := map_twilio_status (provider_status twilio_call)\<rparr>;
          d2 = (case duration twilio_call of
                  Some secs \<Rightarrow> d1\<lparr>duration_seconds := Some (int secs)\<rparr>
                | None \<Rightarrow> d1)
      in if provider_status twilio_call \<in> set terminal_statuses
         then (if falsy (completed_at d2) then d2\<lparr>completed_at := Some now\<rparr> else d2)
         else d2)"

text \<open>
  \<open>get_call_status\<close>. The provider is a function from the call sid to the outcome of
  \<open>client.calls(call_sid).fetch()\<close>. The \<open>except TwilioRestException\<close> clause
  swallows that exception alone; any other exception raised by the fetch leaves the
  function, before anything has been written to the stored dict.
\<close>

definition get_call_status ::
    "service \<Rightarrow> string \<Rightarrow> (string \<Rightarrow> provider_error + twilio_call) \<Rightarrow> string
       \<Rightarrow> (provider_error + call_view option) \<times> service" where
  "get_call_status svc cid fetch now =
     (case calls svc cid of
        None \<Rightarrow> (Inr None, svc)
      | Some call_data \<Rightarrow>
          (case fetch (call_sid call_data) of
             Inr twilio_call \<Rightarrow>
               (Inr (Some (view_of (refresh_record call_data twilio_call now))),
                svc\<lparr>calls := (calls svc)(cid \<mapsto> refresh_record call_data twilio_call now)\<rparr>)
           | Inl (TwilioRestException e) \<Rightarrow> (Inr (Some (view_of call_data)), svc)
           | Inl (OtherException m) \<Rightarrow> (Inl (OtherException m), svc)))"

definition get_summary_for_call :: "service \<Rightarrow> string \<Rightarrow> string option" where
  "get_summary_for_call svc cid =
     (case calls svc cid of None \<Rightarrow> None | Some call_data \<Rightarrow> Some (summary_text call_data))"

text \<open>A service whose store is empty, as \<open>__init__\<close> leaves it.\<close>

definition new_service :: "string \<Rightarrow> string \<Rightarrow> string \<Rightarrow> service" where
  "new_service provider caller base =
     \<lparr>provider_number = provider, caller_id = caller, webhook_base_url = base,
      calls = Map.empty\<rparr>"

section \<open>Call service: histories\<close>

text \<open>
  A refresh is a status query: the identifier asked for, the provider's behaviour at that
  moment and the clock reading. An event is a call creation or a refresh.
\<close>

type_synonym refresh = "string \<times> (string \<Rightarrow> provider_error + twilio_call) \<times> string"

fun run_refreshes :: "service \<Rightarrow> refresh list \<Rightarrow> service" where
  "run_refreshes svc [] = svc"
| "run_refreshes svc ((cid, fetch, now) # rs) =
     run_refreshes (snd (get_call_status svc cid fetch now)) rs"

text \<open>
  The clock reading of the first refresh of \<open>cid\<close> in which the provider, asked for
  \<open>the_sid\<close>, answers with a terminal status.
\<close>

fun first_terminal_time :: "string \<Rightarrow> string \<Rightarrow> refresh list \<Rightarrow> string option" where
  "first_terminal_time cid the_sid [] = None"
| "first_terminal_time cid the_sid ((c, fetch, now) # rs) =
     (if c = cid
         \<and> (case fetch the_sid of
               Inr call \<Rightarrow> provider_status call \<in> set terminal_statuses
             | Inl e \<Rightarrow> False)
      then Some now
      else first_terminal_time cid the_sid rs)"

datatype event =
    StartCall string string string "provider_error + twilio_call" string
  | GetStatus string "string \<Rightarrow> provider_error + twilio_call" string

fun step :: "service \<Rightarrow> event \<Rightarrow> service" where
  "step svc (StartCall summary pid uuid_hex created now) =
     snd (start_call svc summary pid uuid_hex created now)"
| "step svc (GetStatus cid fetch now) = snd (get_call_status svc cid fetch now)"

fun created_ids :: "event list \<Rightarrow> string list" where
  "created_ids [] = []"
| "created_ids (StartCall summary pid uuid_hex created now # evs) =
     (case created of
        Inr call \<Rightarrow> (''call_'' @ take 8 uuid_hex) # created_ids evs
      | Inl e \<Rightarrow> created_ids evs)"
| "created_ids (GetStatus cid fetch now # evs) = created_ids evs"

text \<open>Sample provider behaviours and a sample service.\<close>

definition sample_service :: service where
  "sample_service = new_service ''+15550100'' ''+15550199'' ''http://localhost:5000''"

definition queued_call :: twilio_call where
  "queued_call = \<lparr>sid = ''CA123'', provider_status = ''queued'', duration = None\<rparr>"

definition fetch_ringing :: "string \<Rightarrow> provider_error + twilio_call" where
  "fetch_ringing s = Inr \<lparr>sid = s, provider_status = ''ringing'', duration = None\<rparr>"

definition fetch_completed :: "string \<Rightarrow> provider_error + twilio_call" where
  "fetch_completed s = Inr \<lparr>sid = s, provider_status = ''completed'', duration = Some 120\<rparr>"

definition fetch_failing :: "string \<Rightarrow> provider_error + twilio_call" where
  "fetch_failing s =
     Inl (TwilioRestException
            \<lparr>exc_status = 404, exc_uri = ''/Calls/'' @ s, exc_msg = ''call not found'',
             exc_code = 20404\<rparr>)"

definition fetch_unreachable :: "string \<Rightarrow> provider_error + twilio_call" where
  "fetch_unreachable s = Inl (OtherException ''ConnectionError: connection refused'')"

definition sample_started :: service where
  "sample_started =
     snd (start_call sample_service ''vitals summary'' ''PATIENT_001'' ''0123456789abcdef''
            (Inr queued_call) ''2025-01-01T10:00:00+00:00'')"

definition sample_history :: "refresh list" where
  "sample_history =
     [(''call_01234567'', fetch_ringing, ''2025-01-01T10:00:05+00:00''),
      (''call_01234567'', fetch_failing, ''2025-01-01T10:00:10+00:00''),
      (''call_01234567'', fetch_completed, ''2025-01-01T10:02:10+00:00''),
      (''call_01234567'', fetch_ringing, ''2025-01-01T10:02:20+00:00''),
      (''call_01234567'', fetch_completed, ''2025-01-01T10:02:30+00:00'')]"

section \<open>Properties of the call service\<close>

lemma get_call_status_other:
  "c \<noteq> cid \<Longrightarrow> calls (snd (get_call_status svc cid fetch now)) c = calls svc c"
  by (simp add: get_call_status_def split: option.splits sum.splits provider_error.splits)

lemma get_call_status_untracked:
  "calls svc c = None \<Longrightarrow> calls (snd (get_call_status svc cid fetch now)) c = None"
  by (auto simp: get_call_status_def split: option.splits sum.splits provider_error.splits)

lemma refresh_record_fixed:
  "summary_text (refresh_record d tc now) = summary_text d"
  "call_sid (refresh_record d tc now) = call_sid d"
  by (simp_all add: refresh_record_def Let_def split: option.splits)

lemma refresh_record_completed_at:
  "completed_at (refresh_record d tc now) =
     (if provider_status tc \<in> set terminal_statuses \<and> falsy (completed_at d)
      then Some now else completed_at d)"
  by (simp add: refresh_record_def Let_def split: option.splits)

lemma get_call_status_same:
  assumes "calls svc cid = Some d"
  shows "\<exists>d'. calls (snd (get_call_status svc cid fetch now)) cid = Some d'
           \<and> summary_text d' = summary_text d \<and> call_sid d' = call_sid d
           \<and> completed_at d' =
               (if (case fetch (call_sid d) of
                      Inr call \<Rightarrow> provider_status call \<in> set terminal_statuses
                    | Inl e \<Rightarrow> False) \<and> falsy (completed_at d)
                then Some now else completed_at d)"
  using assms
  by (auto simp: get_call_status_def refresh_record_fixed refresh_record_completed_at
      split: sum.splits provider_error.splits)


lemma get_call_status_summary:
  "get_summary_for_call (snd (get_call_status svc cid fetch now)) c = get_summary_for_call svc c"
proof (cases "c = cid")
  case False
  then show ?thesis
    by (simp add: get_summary_for_call_def get_call_status_other)
next
  case True
  show ?thesis
  proof (cases "calls svc cid")
    case None
    then show ?thesis
      using True by (simp add: get_summary_for_call_def get_call_status_untracked)
  next
    case (Some d)
    then show ?thesis
      using True get_call_status_same [OF Some, of fetch now]
      by (auto simp: get_summary_for_call_def)
  qed
qed

lemma run_refreshes_summary:
  "get_summary_for_call (run_refreshes svc rs) c = get_summary_for_call svc c"
  by (induction svc rs rule: run_refreshes.induct) (simp_all add: get_call_status_summary)

lemma run_refreshes_completed_at:
  assumes "calls svc cid = Some d" and "completed_at d \<noteq> Some []"
    and "\<forall>(c, fetch, now) \<in> set rs. now \<noteq> []"
  shows "map_option completed_at (calls (run_refreshes svc rs) cid) =
           Some (case completed_at d of
                   None \<Rightarrow> first_terminal_time cid (call_sid d) rs
                 | Some t \<Rightarrow> Some t)"
  using assms
proof (induction rs arbitrary: svc d)
  case Nil
  then show ?case by (simp split: option.splits)
next
  case (Cons r rs)
  obtain c fetch now where r: "r = (c, fetch, now)" by (cases r) auto
  have now: "now \<noteq> []" using Cons.prems(3) r by simp
  have rest: "\<forall>(c, fetch, now) \<in> set rs. now \<noteq> []" using Cons.prems(3) by simp
  show ?case
  proof (cases "c = cid")
    case False
    then have "calls (snd (get_call_status svc c fetch now)) cid = Some d"
      using Cons.prems(1) by (simp add: get_call_status_other)
    from Cons.IH [OF this Cons.prems(2) rest] show ?thesis
      using False r by (simp split: option.splits)
  next
    case True
    obtain d' where d': "calls (snd (get_call_status svc cid fetch now)) cid = Some d'"
      and sid': "call_sid d' = call_sid d"
      and comp: "completed_at d' =
               (if (case fetch (call_sid d) of
                      Inr call \<Rightarrow> provider_status call \<in> set terminal_statuses
                    | Inl e \<Rightarrow> False) \<and> falsy (completed_at d)
                then Some now else completed_at d)"
      using get_call_status_same [OF Cons.prems(1), of fetch now] by blast
    have ne: "completed_at d' \<noteq> Some []"
      using comp now Cons.prems(2) by (simp split: if_splits)
    from Cons.IH [OF d' ne rest] show ?thesis
      using True r comp sid' Cons.prems(2)
      by (auto simp: falsy_def split: option.splits if_splits)
  qed
qed

lemma first_terminal_time_append:
  "first_terminal_time cid s rs = Some t \<Longrightarrow> first_terminal_time cid s (rs @ rs') = Some t"
  by (induction cid s rs rule: first_terminal_time.induct) (auto split: if_splits)

lemma start_call_created:
  assumes "start_call svc summary pid uuid_hex created now = (Inr cid, svc1)"
  shows "\<exists>call. created = Inr call \<and> cid = ''call_'' @ take 8 uuid_hex
           \<and> calls svc1 cid =
               Some \<lparr>call_id = cid, call_sid = sid call, patient_id = pid,
                     summary_text = summary,
                     status = map_twilio_status (provider_status call),
                     to_number = provider_number svc, from_number = caller_id svc,
                     created_at = now, completed_at = None, duration_seconds = None\<rparr>"
  using assms by (auto simp: start_call_def Let_def split: sum.splits provider_error.splits)

lemma untracked_stays_untracked:
  "calls svc c = None \<Longrightarrow> c \<notin> set (created_ids evs) \<Longrightarrow> calls (foldl step svc evs) c = None"
proof (induction evs arbitrary: svc)
  case Nil
  then show ?case by simp
next
  case (Cons ev evs)
  show ?case
  proof (cases ev)
    case (StartCall summary pid uuid_hex created now)
    have "calls (step svc ev) c = None \<and> c \<notin> set (created_ids evs)"
      using Cons.prems StartCall
      by (auto simp: start_call_def Let_def split: sum.splits provider_error.splits)
    then show ?thesis using Cons.IH [of "step svc ev"] by simp
  next
    case (GetStatus cid fetch now)
    have "calls (step svc ev) c = None \<and> c \<notin> set (created_ids evs)"
      using Cons.prems GetStatus by (simp add: get_call_status_untracked)
    then show ?thesis using Cons.IH [of "step svc ev"] by simp
  qed
qed


lemma sample_start:
  "start_call sample_service ''vitals summary'' ''PATIENT_001'' ''0123456789abcdef''
     (Inr queued_call) ''2025-01-01T10:00:00+00:00'' = (Inr ''call_01234567'', sample_started)"
  by (simp add: sample_started_def start_call_def Let_def)

lemma sample_history_times: "\<forall>(c, fetch, now) \<in> set sample_history. now \<noteq> []"
  by (simp add: sample_history_def)

lemma sample_first_terminal:
  "first_terminal_time ''call_01234567'' (sid queued_call) sample_history
     = Some ''2025-01-01T10:02:10+00:00''"
  by (simp add: sample_history_def queued_call_def fetch_ringing_def fetch_failing_def
      fetch_completed_def terminal_statuses_def)

text \<open>
  Claim C7. A record created by \<open>start_call\<close> has no completion time. After any history
  of status refreshes (of this or of other identifiers, with the provider answering or
  failing in any way) its completion time is the clock reading of the first refresh of
  this identifier in which the provider reported one of completed, busy, no-answer, failed,
  canceled, and is unset if there was none; so once set, it keeps that first value through
  every later refresh. The clock readings are ISO timestamps, hence non-empty.
\<close>

theorem completed_at_set_once:
  assumes "start_call svc summary pid uuid_hex (Inr call) created_time = (Inr cid, svc1)"
    and "\<forall>(c, fetch, now) \<in> set rs. now \<noteq> []"
    and "\<forall>(c, fetch, now) \<in> set rs'. now \<noteq> []"
  shows "map_option completed_at (calls svc1 cid) = Some None
         \<and> map_option completed_at (calls (run_refreshes svc1 rs) cid)
             = Some (first_terminal_time cid (sid call) rs)
         \<and> (first_terminal_time cid (sid call) rs = Some t \<longrightarrow>
              map_option completed_at (calls (run_refreshes svc1 (rs @ rs')) cid) = Some (Some t))
         \<and> terminal_statuses = [''completed'', ''busy'', ''no-answer'', ''failed'', ''canceled'']"
proof -
  let ?d = "\<lparr>call_id = cid, call_sid = sid call, patient_id = pid,
             summary_text = summary,
             status = map_twilio_status (provider_status call),
             to_number = provider_number svc, from_number = caller_id svc,
             created_at = created_time, completed_at = None, duration_seconds = None\<rparr>"
  have d: "calls svc1 cid = Some ?d"
    using start_call_created [OF assms(1)] by auto
  have ne: "completed_at ?d \<noteq> Some []" by simp
  have a: "map_option completed_at (calls svc1 cid) = Some None"
    using d by simp
  have b: "map_option completed_at (calls (run_refreshes svc1 rs) cid)
             = Some (first_terminal_time cid (sid call) rs)"
    using run_refreshes_completed_at [OF d ne assms(2)] by simp
  have both: "\<forall>(c, fetch, now) \<in> set (rs @ rs'). now \<noteq> []"
    using assms(2,3) by auto
  have c: "first_terminal_time cid (sid call) rs = Some t \<longrightarrow>
              map_option completed_at (calls (run_refreshes svc1 (rs @ rs')) cid) = Some (Some t)"
    using run_refreshes_completed_at [OF d ne both]
      first_terminal_time_append [of cid "sid call" rs t rs']
    by auto
  show ?thesis
    using a b c by (simp add: terminal_statuses_def)
qed

theorem completed_at_set_once_witness:
  "map_option completed_at (calls sample_started ''call_01234567'') = Some None
   \<and> map_option completed_at (calls (run_refreshes sample_started (take 2 sample_history))
        ''call_01234567'') = Some None
   \<and> map_option completed_at (calls (run_refreshes sample_started (take 3 sample_history))
        ''call_01234567'') = Some (Some ''2025-01-01T10:02:10+00:00'')
   \<and> map_option completed_at (calls (run_refreshes sample_started sample_history)
        ''call_01234567'') = Some (Some ''2025-01-01T10:02:10+00:00'')"
proof -
  have t2: "\<forall>(c, fetch, now) \<in> set (take 2 sample_history). now \<noteq> []"
    and t3: "\<forall>(c, fetch, now) \<in> set (take 3 sample_history). now \<noteq> []"
    by (simp_all add: sample_history_def)
  have f2: "first_terminal_time ''call_01234567'' (sid queued_call) (take 2 sample_history)
              = None"
    by (simp add: sample_history_def queued_call_def fetch_ringing_def fetch_failing_def
        terminal_statuses_def)
  have f3: "first_terminal_time ''call_01234567'' (sid queued_call) (take 3 sample_history)
              = Some ''2025-01-01T10:02:10+00:00''"
    by (simp add: sample_history_def queued_call_def fetch_ringing_def fetch_failing_def
        fetch_completed_def terminal_statuses_def)
  show ?thesis
    using completed_at_set_once [OF sample_start t2 t2]
      completed_at_set_once [OF sample_start t3 t3]
      completed_at_set_once [OF sample_start sample_history_times sample_history_times]
      f2 f3 sample_first_terminal
    by simp
qed

lemma rest_exception_returns_stored:
  assumes "calls svc cid = Some d" and "fetch (call_sid d) = Inl (TwilioRestException e)"
  shows "get_call_status svc cid fetch now = (Inr (Some (view_of d)), svc)"
  using assms by (simp add: get_call_status_def)

lemma other_exception_propagates:
  assumes "calls svc cid = Some d" and "fetch (call_sid d) = Inl (OtherException m)"
  shows "get_call_status svc cid fetch now = (Inl (OtherException m), svc)"
  using assms by (simp add: get_call_status_def)

lemma sample_started_record:
  "calls sample_started ''call_01234567'' =
     Some \<lparr>call_id = ''call_01234567'', call_sid = ''CA123'', patient_id = ''PATIENT_001'',
           summary_text = ''vitals summary'', status = ''queued'',
           to_number = ''+15550100'', from_number = ''+15550199'',
           created_at = ''2025-01-01T10:00:00+00:00'', completed_at = None,
           duration_seconds = None\<rparr>"
  by (simp add: sample_started_def start_call_def Let_def sample_service_def
      new_service_def queued_call_def map_twilio_status_def status_map_def)

text \<open>
  Claim C8, on the tracked call of \<open>sample_started\<close>. When the provider's status fetch
  raises \<open>TwilioRestException\<close>, the status query returns the stored record as it is
  and leaves the store as it was. When the fetch fails in another way, here by a
  connection error, the store is left as it was too, but the query does not return the
  stored record: the exception reaches the caller.
\<close>

theorem failed_fetch_outcomes:
  "get_call_status sample_started ''call_01234567'' fetch_failing ''2025-01-01T10:00:10+00:00''
     = (Inr (Some \<lparr>view_call_id = ''call_01234567'', view_call_sid = ''CA123'',
                   view_status = ''queued'', view_patient_id = ''PATIENT_001'',
                   view_to = ''+15550100'', view_from = ''+15550199'',
                   view_created_at = ''2025-01-01T10:00:00+00:00'', view_completed_at = None,
                   view_duration_seconds = None\<rparr>),
        sample_started)
   \<and> get_call_status sample_started ''call_01234567'' fetch_unreachable
         ''2025-01-01T10:00:10+00:00''
     = (Inl (OtherException ''ConnectionError: connection refused''), sample_started)"
proof -
  note d = sample_started_record
  have a: "get_call_status sample_started ''call_01234567'' fetch_failing
             ''2025-01-01T10:00:10+00:00''
     = (Inr (Some \<lparr>view_call_id = ''call_01234567'', view_call_sid = ''CA123'',
                   view_status = ''queued'', view_patient_id = ''PATIENT_001'',
                   view_to = ''+15550100'', view_from = ''+15550199'',
                   view_created_at = ''2025-01-01T10:00:00+00:00'', view_completed_at = None,
                   view_duration_seconds = None\<rparr>),
        sample_started)"
    using rest_exception_returns_stored [OF d, of fetch_failing _ "''2025-01-01T10:00:10+00:00''"]
    by (simp add: fetch_failing_def view_of_def)
  have b: "get_call_status sample_started ''call_01234567'' fetch_unreachable
         ''2025-01-01T10:00:10+00:00''
     = (Inl (OtherException ''ConnectionError: connection refused''), sample_started)"
    using other_exception_propagates [OF d, of fetch_unreachable _ "''2025-01-01T10:00:10+00:00''"]
    by (simp add: fetch_unreachable_def)
  show ?thesis
    using a b by blast
qed

text \<open>
  Claim C10. After a successful \<open>start_call\<close>, \<open>get_summary_for_call\<close> on the returned
  identifier gives back exactly the summary text passed in; no history of status refreshes
  changes what \<open>get_summary_for_call\<close> returns, for any identifier; and starting from the
  empty store, after any history of call creations and refreshes, an identifier that no
  successful creation returned yields None.
\<close>

theorem summary_round_trip:
  assumes "start_call svc summary pid uuid_hex created now = (Inr cid, svc1)"
  shows "get_summary_for_call svc1 cid = Some summary
         \<and> get_summary_for_call (run_refreshes svc1 rs) cid = Some summary
         \<and> get_summary_for_call (run_refreshes svc2 rs) c = get_summary_for_call svc2 c
         \<and> (c \<notin> set (created_ids evs) \<longrightarrow>
              get_summary_for_call (foldl step (new_service provider caller base) evs) c = None)"
proof -
  have a: "get_summary_for_call svc1 cid = Some summary"
    using start_call_created [OF assms] by (auto simp: get_summary_for_call_def)
  have b: "get_summary_for_call (run_refreshes svc1 rs) cid = Some summary"
    using a by (simp add: run_refreshes_summary)
  have c: "get_summary_for_call (run_refreshes svc2 rs) c = get_summary_for_call svc2 c"
    by (rule run_refreshes_summary)
  have d: "c \<notin> set (created_ids evs) \<longrightarrow>
              get_summary_for_call (foldl step (new_service provider caller base) evs) c = None"
    using untracked_stays_untracked [of "new_service provider caller base" c evs]
    by (simp add: get_summary_for_call_def new_service_def)
  show ?thesis
    using a b c d by blast
qed

theorem summary_round_trip_witness:
  "get_summary_for_call sample_started ''call_01234567'' = Some ''vitals summary''
   \<and> get_summary_for_call (run_refreshes sample_started sample_history) ''call_01234567''
       = Some ''vitals summary''
   \<and> ''call_ffffffff'' \<notin> set (created_ids
        [StartCall ''vitals summary'' ''PATIENT_001'' ''0123456789abcdef'' (Inr queued_call)
           ''2025-01-01T10:00:00+00:00'',
         GetStatus ''call_ffffffff'' fetch_completed ''2025-01-01T10:00:05+00:00''])
   \<and> get_summary_for_call
        (foldl step (new_service ''+15550100'' ''+15550199'' ''http://localhost:5000'')
          [StartCall ''vitals summary'' ''PATIENT_001'' ''0123456789abcdef'' (Inr queued_call)
             ''2025-01-01T10:00:00+00:00'',
           GetStatus ''call_ffffffff'' fetch_completed ''2025-01-01T10:00:05+00:00''])
        ''call_ffffffff'' = None"
proof -
  let ?evs = "[StartCall ''vitals summary'' ''PATIENT_001'' ''0123456789abcdef''
                 (Inr queued_call) ''2025-01-01T10:00:00+00:00'',
               GetStatus ''call_ffffffff'' fetch_completed ''2025-01-01T10:00:05+00:00'']"
  have n: "''call_ffffffff'' \<notin> set (created_ids ?evs)"
    by simp
  show ?thesis
    using n summary_round_trip [OF sample_start, of sample_history sample_started
        "''call_ffffffff''" ?evs "''+15550100''" "''+15550199''" "''http://localhost:5000''"]
    by blast
qed

end
